theory Spec2Isabelle
  imports Complex_Main "HOL-Library.Product_Lexorder"
begin

section \<open>Arrays, errors and the random source\<close>

text \<open>
  The program is \<^verbatim>\<open>src/genSTEM/Model.py\<close>. Its numpy/cupy arrays of floats are modelled
  as lists of real numbers: a float is idealised as the real number it approximates, so
  rounding is not part of the model. A two-dimensional array is the list of its rows. An
  array of shape \<open>(2, H, W)\<close>, such as the probe positions, is the \<open>H\<close> by \<open>W\<close> array of the
  pairs of its two channels, so that both channels have one shape by construction;
  \<open>chan0\<close> and \<open>chan1\<close> are \<^verbatim>\<open>a[0]\<close> and \<^verbatim>\<open>a[1]\<close>, the X and the Y channel.
\<close>

type_synonym array2 = "real list list"

type_synonym grid = "(real \<times> real) list list"

definition chan0 :: "grid \<Rightarrow> array2" where
  "chan0 p = map (map fst) p"

definition chan1 :: "grid \<Rightarrow> array2" where
  "chan1 p = map (map snd) p"

text \<open>The exceptions the source can raise on the paths modelled here.\<close>

datatype py_error = AttributeError | ValueError | TypeError | ZeroDivisionError | NameError

text \<open>
  The ambient generator behind \<^verbatim>\<open>random.random\<close> is made explicit: it is the stream of
  the values it will return, each in \<open>[0, 1)\<close>. Drawing \<open>n\<close> values returns the first \<open>n\<close>
  and the rest of the stream.
\<close>

type_synonym rng = "nat \<Rightarrow> real"

definition random_sample :: "nat \<Rightarrow> rng \<Rightarrow> real list \<times> rng" where
  "random_sample n g = (map g [0..<n], \<lambda>i. g (n + i))"

text \<open>\<^verbatim>\<open>zeros((2, h, w))\<close>\<close>

definition zeros :: "nat \<Rightarrow> nat \<Rightarrow> grid" where
  "zeros h w = replicate h (replicate w (0, 0))"

text \<open>\<^verbatim>\<open>a.shape\<close> of a two-dimensional array: rows, then columns.\<close>

definition shape :: "'a list list \<Rightarrow> nat \<times> nat" where
  "shape a = (length a, (case a of [] \<Rightarrow> 0 | r # _ \<Rightarrow> length r))"

section \<open>Artifact generators\<close>

text \<open>
  \<^verbatim>\<open>
  def add_drift(XYshape, drift_vector = [1,0], drift_speed=1e-4):
      drift_speed /= np.prod(XYshape) #total number of pixels
      drift_vector = -cp.array(drift_vector)
      probe_indices = cp.arange(cp.prod(cp.array(XYshape))).reshape(XYshape)
      return (drift_speed * drift_vector * probe_indices.T[..., None]).T
  \<close>
  \<open>probe_indices[i, j] = i * n1 + j\<close>; the two transpositions put the channel axis first,
  so the result has shape \<open>(2, n0, n1)\<close>. When the shape has no pixel the quotient is
  taken by zero, numpy raises nothing, and the result has no element that could show it.
\<close>

definition add_drift :: "nat \<times> nat \<Rightarrow> real \<times> real \<Rightarrow> real \<Rightarrow> grid" where
  "add_drift XYshape drift_vector drift_speed =
     (let (n0, n1) = XYshape;
          speed = drift_speed / real (n0 * n1);
          dvx = - fst drift_vector;
          dvy = - snd drift_vector;
          probe_indices = map (\<lambda>i. map (\<lambda>j. i * n1 + j) [0..<n1]) [0..<n0]
      in map (map (\<lambda>k. (speed * dvx * real k, speed * dvy * real k))) probe_indices)"

text \<open>
  \<^verbatim>\<open>
  def add_line_jitter(XYshape, strength = 0.3, horizontal=True, vertical=False, ):
      jitter = cp.zeros(XYshape) # Shape is (2, X, Y)
      if type(strength) == tuple:
          strengthx = strength[0]
          strengthy = strength[1]
      else:
          strengthx = strengthy = strength
      if horizontal:
          jitter[0] += strengthx*(2*cp.random.random((XYshape[1])) - 1)[:, None]
      if vertical:
          jitter[1] += strengthy*(2*cp.random.random((XYshape[1])) - 1)[:, None]
      return jitter
  \<close>
  \<open>XYshape\<close> is \<open>(2, h, w)\<close>; the model takes \<open>(h, w)\<close>. A draw has one value per index of
  axis 1, and \<^verbatim>\<open>[:, None]\<close> makes it a column that is added to every column of the channel.
\<close>

datatype strength = Scalar real | Tuple real real

text \<open>\<^verbatim>\<open>jitter[0] += col[:, None]\<close> and \<^verbatim>\<open>jitter[1] += col[:, None]\<close>\<close>

definition add_column0 :: "grid \<Rightarrow> real list \<Rightarrow> grid" where
  "add_column0 a col = map2 (\<lambda>row v. map (\<lambda>(x, y). (x + v, y)) row) a col"

definition add_column1 :: "grid \<Rightarrow> real list \<Rightarrow> grid" where
  "add_column1 a col = map2 (\<lambda>row v. map (\<lambda>(x, y). (x, y + v)) row) a col"

definition add_line_jitter ::
  "nat \<times> nat \<Rightarrow> strength \<Rightarrow> bool \<Rightarrow> bool \<Rightarrow> rng \<Rightarrow> grid \<times> rng" where
  "add_line_jitter XYshape strength horizontal vertical g =
     (let (h, w) = XYshape;
          (strengthx, strengthy) =
            (case strength of Tuple s0 s1 \<Rightarrow> (s0, s1) | Scalar s \<Rightarrow> (s, s));
          jitter = zeros h w;
          (jitter', g1) =
            (if horizontal
             then (let (r, g') = random_sample h g
                   in (add_column0 jitter (map (\<lambda>u. strengthx * (2 * u - 1)) r), g'))
             else (jitter, g));
          (jitter'', g2) =
            (if vertical
             then (let (r, g') = random_sample h g1
                   in (add_column1 jitter' (map (\<lambda>u. strengthy * (2 * u - 1)) r), g'))
             else (jitter', g1))
      in (jitter'', g2))"

section \<open>Geometry\<close>

text \<open>
  \<^verbatim>\<open>
  def rotation_matrix(deg, clockwise_positive=False):
      c = np.cos(np.deg2rad(deg))
      s = np.sin(np.deg2rad(deg))
      arr = np.array([[c, -s],[s, c]])
      if clockwise_positive:
           arr = arr.T
      return arr
  \<close>
\<close>

type_synonym matrix2 = "(real \<times> real) \<times> (real \<times> real)"

definition deg2rad :: "real \<Rightarrow> real" where
  "deg2rad deg = deg * pi / 180"

definition rotation_matrix :: "real \<Rightarrow> bool \<Rightarrow> matrix2" where
  "rotation_matrix deg clockwise_positive =
     (let c = cos (deg2rad deg);
          s = sin (deg2rad deg)
      in if clockwise_positive then ((c, s), (- s, c)) else ((c, - s), (s, c)))"

text \<open>
  \<^verbatim>\<open>arange(start, stop, step)\<close>: the values \<open>start + i * step\<close> for \<open>i\<close> below
  \<open>ceil((stop - start) / step)\<close>, none when that is not positive. With step \<open>0\<close> the length
  is infinite or undefined and the call raises (OverflowError or ValueError, by version).
\<close>

definition arange :: "real \<Rightarrow> real \<Rightarrow> real \<Rightarrow> py_error + real list" where
  "arange start stop step =
     (if step = 0 then Inl ValueError
      else Inr (map (\<lambda>i. start + real i * step) [0..<nat \<lceil>(stop - start) / step\<rceil>]))"

text \<open>
  \<^verbatim>\<open>meshgrid(xrange, yrange)\<close> with the default \<^verbatim>\<open>xy\<close> indexing: both arrays have one row per
  element of \<open>yrange\<close> and one column per element of \<open>xrange\<close>.
\<close>

definition meshgrid :: "real list \<Rightarrow> real list \<Rightarrow> grid" where
  "meshgrid xrange yrange = map (\<lambda>y. map (\<lambda>x. (x, y)) xrange) yrange"

text \<open>\<^verbatim>\<open>p += q\<close> on two arrays of one shape.\<close>

definition grid_add :: "grid \<Rightarrow> grid \<Rightarrow> grid" where
  "grid_add p q = map2 (map2 (\<lambda>(x, y) (dx, dy). (x + dx, y + dy))) p q"

text \<open>\<^verbatim>\<open>a.mean()\<close> over all elements of one channel.\<close>

definition arr_mean :: "array2 \<Rightarrow> real" where
  "arr_mean a = sum_list (concat a) / real (length (concat a))"

text \<open>
  \<^verbatim>\<open>
  mean = self.probe_positions.mean(axis=(-1,-2))[:, None]
  self.probe_positions = (
      cp.asarray(rotation_matrix(self.scan_rotation)) @ (
          self.probe_positions.reshape((2, -1)) - mean) + mean
  ).reshape((2, *XYshape[1:]))
  \<close>
  The reshape to \<open>(2, -1)\<close> and back leaves every pixel in its place, so the product is
  taken pixel by pixel. On a grid with no pixel the mean is not a number and no element
  uses it.
\<close>

definition rotate_about_mean :: "matrix2 \<Rightarrow> grid \<Rightarrow> grid" where
  "rotate_about_mean R p =
     (let ((r00, r01), (r10, r11)) = R;
          mx = arr_mean (chan0 p);
          my = arr_mean (chan1 p)
      in map (map (\<lambda>(x, y). (r00 * (x - mx) + r01 * (y - my) + mx,
                              r10 * (x - mx) + r11 * (y - my) + my))) p)"

section \<open>The image model\<close>

text \<open>
  Some amplitudes and pixels are not real numbers: \<^verbatim>\<open>0 ** p\<close> with \<open>p < 0\<close> is \<open>inf\<close>, and a
  division by zero gives \<open>inf\<close> or \<open>nan\<close>; numpy warns and raises nothing. An amplitude or
  a pixel that is \<open>inf\<close> or \<open>nan\<close> is \<open>None\<close>; a sum or a product with \<open>None\<close> is \<open>None\<close>
  (also \<open>inf * 0\<close>, which is \<open>nan\<close>).
\<close>

type_synonym flt = "real option"

type_synonym image = "flt list list"

definition fadd :: "flt \<Rightarrow> flt \<Rightarrow> flt" where
  "fadd a b = (case a of None \<Rightarrow> None | Some u \<Rightarrow> (case b of None \<Rightarrow> None | Some v \<Rightarrow> Some (u + v)))"

text \<open>
  \<^verbatim>\<open>numbers ** power\<close> on an atomic number: \<^verbatim>\<open>0 ** 0.0\<close> is \<open>1\<close>, \<^verbatim>\<open>0 ** p\<close> is \<open>0\<close> for
  positive \<open>p\<close> and \<open>inf\<close> for negative \<open>p\<close>.
\<close>

definition float_power :: "nat \<Rightarrow> real \<Rightarrow> flt" where
  "float_power z p =
     (if z = 0 then (if p < 0 then None else if p = 0 then Some 1 else Some 0)
      else Some (real z powr p))"

text \<open>
  \<^verbatim>\<open>
  def Gaussian2D(x, y, A, xc, yc, sigma):
      return A*cp.exp(
          -(
              (x-xc)**2 +
              (y-yc)**2
          )/(2*sigma**2))
  \<close>
  The function of one pixel; numpy broadcasts it over the arrays it is given. The source
  has no test on \<open>sigma\<close>: the two cases of a zero divisor below are what the float division
  itself returns. With the squared distance \<open>r2\<close> positive, \<^verbatim>\<open>-r2 / 0.0\<close> is \<open>-inf\<close>,
  \<^verbatim>\<open>exp(-inf)\<close> is \<open>0.0\<close> and a finite amplitude times \<open>0.0\<close> is \<open>0.0\<close>; with \<open>r2 = 0\<close>,
  \<^verbatim>\<open>-0.0 / 0.0\<close> is \<open>nan\<close>, and so is the result.
\<close>

definition Gaussian2D :: "real \<Rightarrow> real \<Rightarrow> flt \<Rightarrow> real \<Rightarrow> real \<Rightarrow> real \<Rightarrow> flt" where
  "Gaussian2D x y A xc yc sigma =
     (let r2 = (x - xc)\<^sup>2 + (y - yc)\<^sup>2;
          divisor = 2 * sigma\<^sup>2
      in if divisor = 0
         then (if r2 = 0 then None
               else (case A of None \<Rightarrow> None | Some a \<Rightarrow> Some 0))
         else (case A of None \<Rightarrow> None
               | Some a \<Rightarrow> Some (a * exp (- r2 / divisor))))"

text \<open>
  The four rows \<open>A, xc, yc, sigma\<close> of \<^verbatim>\<open>self.parameters\<close>; \<^verbatim>\<open>self.parameters.T\<close> is the list
  of its columns, one per atom.
\<close>

type_synonym params = "flt list \<times> real list \<times> real list \<times> real list"

definition columns :: "params \<Rightarrow> (flt \<times> real \<times> real \<times> real) list" where
  "columns ps = (case ps of (A, xc, yc, sg) \<Rightarrow> zip A (zip xc (zip yc sg)))"

record ImageModel =
  atom_positions :: "(real \<times> real) list"
  atom_numbers :: "nat list"
  number_of_atoms :: nat
  pixel_size :: real
  sigma :: real
  power_n :: real
  jitter_strength :: strength
  jitter_horizontal :: bool
  jitter_vertical :: bool
  drift_speed :: real
  drift_vector :: "real \<times> real"
  centre_drift :: bool
  scan_rotation :: real
  square :: bool
  margin :: real
  probe_positions :: grid
  parameters :: params

text \<open>\<^verbatim>\<open>if self.jitter_strength:\<close> a number is true when nonzero, a 2-tuple always.\<close>

definition strength_truthy :: "strength \<Rightarrow> bool" where
  "strength_truthy s = (case s of Scalar v \<Rightarrow> v \<noteq> 0 | Tuple a b \<Rightarrow> True)"

text \<open>\<^verbatim>\<open>a.max()\<close> and \<^verbatim>\<open>a.min()\<close> of an array with at least one element.\<close>

definition arr_max :: "array2 \<Rightarrow> real" where
  "arr_max a = Max (set (concat a))"

definition arr_min :: "array2 \<Rightarrow> real" where
  "arr_min a = Min (set (concat a))"

text \<open>
  \<^verbatim>\<open>
  def create_probe_positions(self):
      '''Create probe positions with experimental artifacts.'''
      xlow, ylow = self.atom_positions.min(0) - self.margin
      xhigh, yhigh = self.atom_positions.max(0) + self.margin
      scale = (xhigh - xlow)/100

      if self.square:
          xlow = ylow = min(xlow, ylow)
          xhigh = yhigh = max(xhigh, yhigh)
      xrange = cp.arange(xlow, xhigh+scale, self.pixel_size)
      yrange = cp.arange(ylow, yhigh+scale, self.pixel_size)
      self.probe_positions = cp.stack(cp.meshgrid(xrange, yrange))
      XYshape = self.probe_positions.shape
  \<close>
  \<^verbatim>\<open>min(0)\<close> of an array with no row raises ValueError.
\<close>

definition axis_ranges :: "ImageModel \<Rightarrow> py_error + (real list \<times> real list)" where
  "axis_ranges self =
     (if atom_positions self = [] then Inl ValueError
      else
       (let xlow0 = Min (set (map fst (atom_positions self))) - margin self;
            ylow0 = Min (set (map snd (atom_positions self))) - margin self;
            xhigh0 = Max (set (map fst (atom_positions self))) + margin self;
            yhigh0 = Max (set (map snd (atom_positions self))) + margin self;
            scale = (xhigh0 - xlow0) / 100;
            xlow = (if square self then min xlow0 ylow0 else xlow0);
            ylow = (if square self then min xlow0 ylow0 else ylow0);
            xhigh = (if square self then max xhigh0 yhigh0 else xhigh0);
            yhigh = (if square self then max xhigh0 yhigh0 else yhigh0)
        in case arange xlow (xhigh + scale) (pixel_size self) of
             Inl e \<Rightarrow> Inl e
           | Inr xrange \<Rightarrow>
              (case arange ylow (yhigh + scale) (pixel_size self) of
                 Inl e \<Rightarrow> Inl e
               | Inr yrange \<Rightarrow> Inr (xrange, yrange))))"

text \<open>
  \<^verbatim>\<open>
      if self.jitter_strength:
          self.probe_positions += add_line_jitter(
              XYshape = XYshape,
              strength=self.jitter_strength,
              horizontal=self.jitter_horizontal,
              vertical=self.jitter_vertical)
  \<close>
\<close>

definition jitter_step :: "ImageModel \<Rightarrow> nat \<times> nat \<Rightarrow> grid \<Rightarrow> rng \<Rightarrow> grid \<times> rng" where
  "jitter_step self XYshape p g =
     (if strength_truthy (jitter_strength self)
      then (let (jitter, g') =
                  add_line_jitter XYshape (jitter_strength self)
                    (jitter_horizontal self) (jitter_vertical self) g
            in (grid_add p jitter, g'))
      else (p, g))"

text \<open>
  \<^verbatim>\<open>
      if self.scan_rotation:
          mean = self.probe_positions.mean(axis=(-1,-2))[:, None]
          self.probe_positions = (
              cp.asarray(rotation_matrix(self.scan_rotation)) @ (
                  self.probe_positions.reshape((2, -1)) - mean) + mean
          ).reshape((2, *XYshape[1:]))
  \<close>
\<close>

definition rotation_step :: "ImageModel \<Rightarrow> grid \<Rightarrow> grid" where
  "rotation_step self p =
     (if scan_rotation self \<noteq> 0
      then rotate_about_mean (rotation_matrix (scan_rotation self) False) p
      else p)"

text \<open>
  \<^verbatim>\<open>
      if self.drift_speed:
          #speed = self.drift_speed / np.prod(XYshape[1:])
          drift = add_drift(XYshape[1:], self.drift_vector, self.drift_speed)
          self.probe_positions += drift

          if self.centre_drift:
              driftx, drifty = drift
              offsetx = driftx.max() if driftx.max() > -driftx.min() else driftx.min()
              offsety = drifty.max() if drifty.max() > -drifty.min() else drifty.min()
              self.probe_positions -= cp.array([offsetx, offsety])[:, None, None] / 2
  \<close>
  \<^verbatim>\<open>max()\<close> of an array with no element raises ValueError.
\<close>

definition centre_offset :: "array2 \<Rightarrow> real" where
  "centre_offset d = (if arr_max d > - arr_min d then arr_max d else arr_min d)"

definition centre_shift :: "grid \<Rightarrow> real \<Rightarrow> real \<Rightarrow> grid" where
  "centre_shift p offsetx offsety = map (map (\<lambda>(x, y). (x - offsetx / 2, y - offsety / 2))) p"

definition drift_step :: "ImageModel \<Rightarrow> nat \<times> nat \<Rightarrow> grid \<Rightarrow> py_error + grid" where
  "drift_step self XYshape p =
     (if drift_speed self \<noteq> 0
      then (let drift = add_drift XYshape (drift_vector self) (drift_speed self);
                p' = grid_add p drift
            in if centre_drift self
               then (if concat drift = [] then Inl ValueError
                     else (let driftx = chan0 drift;
                               drifty = chan1 drift;
                               offsetx = centre_offset driftx;
                               offsety = centre_offset drifty
                           in Inr (centre_shift p' offsetx offsety)))
               else Inr p')
      else Inr p)"

text \<open>
  The array the method builds, by the four blocks in the order of the source; the shape
  given to the jitter and to the drift is the one of the mesh.
  \<open>create_probe_positions\<close> stores the array in the object.
\<close>

definition probe_grid :: "ImageModel \<Rightarrow> rng \<Rightarrow> py_error + (grid \<times> rng)" where
  "probe_grid self g =
     (case axis_ranges self of
        Inl e \<Rightarrow> Inl e
      | Inr (xrange, yrange) \<Rightarrow>
         (let p0 = meshgrid xrange yrange;
              XYshape = (length yrange, length xrange);
              (p1, g1) = jitter_step self XYshape p0 g;
              p2 = rotation_step self p1
          in case drift_step self XYshape p2 of
               Inl e \<Rightarrow> Inl e
             | Inr p3 \<Rightarrow> Inr (p3, g1)))"

definition create_probe_positions :: "ImageModel \<Rightarrow> rng \<Rightarrow> py_error + (ImageModel \<times> rng)" where
  "create_probe_positions self g =
     (case probe_grid self g of
        Inl e \<Rightarrow> Inl e
      | Inr (p, g') \<Rightarrow> Inr (self\<lparr>probe_positions := p\<rparr>, g'))"

text \<open>
  \<^verbatim>\<open>
  def create_parameters(self):
      xc, yc = self.atom_positions.T
      A = self.atom_numbers ** self.power
      sigma = np.ones(self.number_of_atoms) * self.sigma
      self.parameters = cp.asarray(np.array([A, xc, yc, sigma]))
  \<close>
\<close>

definition create_parameters :: "ImageModel \<Rightarrow> ImageModel" where
  "create_parameters self =
     (let xc = map fst (atom_positions self);
          yc = map snd (atom_positions self);
          A = map (\<lambda>z. float_power z (power_n self)) (atom_numbers self);
          sg = map (\<lambda>one. one * sigma self) (replicate (number_of_atoms self) 1)
      in self\<lparr>parameters := (A, xc, yc, sg)\<rparr>)"

text \<open>
  The arguments of the constructor. An \<^verbatim>\<open>ase.Atoms\<close> object is the list of its atoms, each
  a position in space and an atomic number; it is true when it has an atom (its \<^verbatim>\<open>__len__\<close>).
  The \<^verbatim>\<open>positions\<close> argument is \<^verbatim>\<open>None\<close>, a Python list of \<open>(x, y)\<close> pairs, or an array of
  shape \<open>(N, 2)\<close>.
\<close>

type_synonym Atoms = "((real \<times> real \<times> real) \<times> nat) list"

datatype positions_value = PosNone | PosList "(real \<times> real) list" | PosArray "(real \<times> real) list"

record init_args =
  arg_atoms :: "Atoms option"
  arg_positions :: positions_value
  arg_numbers :: "nat list option"
  arg_scan_rotation :: real
  arg_drift_speed :: real
  arg_drift_vector :: "real \<times> real"
  arg_pixel_size :: real
  arg_jitter_strength :: strength
  arg_jitter_horizontal :: bool
  arg_jitter_vertical :: bool
  arg_sigma :: real
  arg_power :: real
  arg_centre_drift :: bool
  arg_square :: bool
  arg_vacuum :: real
  arg_fast :: bool

text \<open>The defaults of the constructor's signature.\<close>

definition default_args :: init_args where
  "default_args =
     \<lparr>arg_atoms = None, arg_positions = PosNone, arg_numbers = None,
      arg_scan_rotation = 0, arg_drift_speed = 0, arg_drift_vector = (1, 0),
      arg_pixel_size = 1 / 10, arg_jitter_strength = Scalar 0,
      arg_jitter_horizontal = True, arg_jitter_vertical = False,
      arg_sigma = 4 / 10, arg_power = 18 / 10,
      arg_centre_drift = True, arg_square = False, arg_vacuum = 5, arg_fast = False\<rparr>"

text \<open>
  \<^verbatim>\<open>not positions\<close>: \<^verbatim>\<open>None\<close> and the empty list are false; an array with two or more
  elements has no truth value (ValueError), an array with none is false.
\<close>

definition not_positions :: "positions_value \<Rightarrow> py_error + bool" where
  "not_positions p =
     (case p of
        PosNone \<Rightarrow> Inr True
      | PosList ps \<Rightarrow> Inr (ps = [])
      | PosArray ps \<Rightarrow> (if ps = [] then Inr True else Inl ValueError))"

text \<open>\<^verbatim>\<open>positions[:,:2]\<close>: only an array takes a tuple of slices.\<close>

definition slice_xy :: "positions_value \<Rightarrow> py_error + (real \<times> real) list" where
  "slice_xy p =
     (case p of
        PosNone \<Rightarrow> Inl TypeError
      | PosList ps \<Rightarrow> Inl TypeError
      | PosArray ps \<Rightarrow> Inr ps)"

text \<open>
  \<^verbatim>\<open>
  if atoms:
      self.atom_positions = atoms.positions[:,:2]
      self.atom_numbers = atoms.numbers
  else:
      if not positions:
          raise AttributeError(...)
      self.atom_positions = positions[:,:2]
      self.atom_numbers = numbers
  \<close>
\<close>

definition select_atoms :: "init_args \<Rightarrow> py_error + ((real \<times> real) list \<times> nat list option)" where
  "select_atoms args =
     (case arg_atoms args of
        Some (a # as) \<Rightarrow>
          Inr (map (\<lambda>((x, y, z), n). (x, y)) (a # as), Some (map snd (a # as)))
      | _ \<Rightarrow>
         (case not_positions (arg_positions args) of
            Inl e \<Rightarrow> Inl e
          | Inr True \<Rightarrow> Inl AttributeError
          | Inr False \<Rightarrow>
             (case slice_xy (arg_positions args) of
                Inl e \<Rightarrow> Inl e
              | Inr ps \<Rightarrow> Inr (ps, arg_numbers args))))"

text \<open>
  \<^verbatim>\<open>
  if fast:
      unique = np.unique(np.column_stack([self.atom_positions, self.atom_numbers]), axis=0)
      self.atom_positions = unique[:, :2]
      self.atom_numbers =  unique[:, 2]
  self.number_of_atoms = len(self.atom_numbers)
  ...
  self.create_probe_positions()
  self.create_parameters()
  \<close>
  \<open>init_fields\<close> is the block of attribute assignments, before the two derived arrays
  are built. \<^verbatim>\<open>np.unique(..., axis=0)\<close> returns the distinct rows in lexicographic order;
  \<^verbatim>\<open>column_stack\<close> needs as many numbers as positions, and \<^verbatim>\<open>len(None)\<close> is a TypeError.
\<close>

definition init_fields :: "init_args \<Rightarrow> (real \<times> real) list \<Rightarrow> nat list \<Rightarrow> ImageModel" where
  "init_fields args ps ns =
     \<lparr>atom_positions = ps, atom_numbers = ns,
      number_of_atoms = length ns,
      pixel_size = arg_pixel_size args,
      sigma = arg_sigma args, power_n = arg_power args,
      jitter_strength = arg_jitter_strength args,
      jitter_horizontal = arg_jitter_horizontal args,
      jitter_vertical = arg_jitter_vertical args,
      drift_speed = arg_drift_speed args,
      drift_vector = arg_drift_vector args,
      centre_drift = arg_centre_drift args,
      scan_rotation = arg_scan_rotation args,
      square = arg_square args, margin = arg_vacuum args,
      probe_positions = [], parameters = ([], [], [], [])\<rparr>"

definition ImageModel_init :: "init_args \<Rightarrow> rng \<Rightarrow> py_error + (ImageModel \<times> rng)" where
  "ImageModel_init args g =
     (case select_atoms args of
        Inl e \<Rightarrow> Inl e
      | Inr (ps, None) \<Rightarrow> Inl TypeError
      | Inr (ps, Some ns) \<Rightarrow>
         (if arg_fast args \<and> length ps \<noteq> length ns then Inl ValueError
          else
           (let unique = sort (remdups (zip ps ns));
                ps' = (if arg_fast args then map fst unique else ps);
                ns' = (if arg_fast args then map snd unique else ns);
                self = init_fields args ps' ns'
            in case create_probe_positions self g of
                 Inl e \<Rightarrow> Inl e
               | Inr (self', g') \<Rightarrow> Inr (create_parameters self', g'))))"

text \<open>
  \<^verbatim>\<open>
  def generate(self):
      X, Y = self.probe_positions
      img = cp.zeros(X.shape)
      for parameters in self.parameters.T:
          img += Gaussian2D(X, Y, *parameters)
      return img
  \<close>
\<close>

definition img_add :: "image \<Rightarrow> image \<Rightarrow> image" where
  "img_add a b = map2 (map2 fadd) a b"

fun generate_loop :: "array2 \<Rightarrow> array2 \<Rightarrow> (flt \<times> real \<times> real \<times> real) list \<Rightarrow> image \<Rightarrow> image" where
  "generate_loop X Y [] img = img"
| "generate_loop X Y ((A, xc, yc, sg) # rest) img =
     generate_loop X Y rest
       (img_add img (map2 (map2 (\<lambda>x y. Gaussian2D x y A xc yc sg)) X Y))"

definition generate :: "ImageModel \<Rightarrow> image" where
  "generate self =
     (let X = chan0 (probe_positions self);
          Y = chan1 (probe_positions self);
          img = map (map (\<lambda>x. Some 0)) X
      in generate_loop X Y (columns (parameters self)) img)"

text \<open>
  \<^verbatim>\<open>
  def generate_cupy_ram(self):
      X, Y = self.probe_positions
      img = cp.sum(Gaussian2D(X[..., None], Y[..., None], *self.parameters), -1)
      return img
  \<close>
  The broadcast adds one axis for the atoms; the sum over it is the sum of the list of the
  atoms' values at the pixel.
\<close>

definition fsum :: "flt list \<Rightarrow> flt" where
  "fsum vs = foldr fadd vs (Some 0)"

definition generate_cupy_ram :: "ImageModel \<Rightarrow> image" where
  "generate_cupy_ram self =
     (let X = chan0 (probe_positions self);
          Y = chan1 (probe_positions self)
      in map2 (map2 (\<lambda>x y. fsum (map (\<lambda>(A, xc, yc, sg). Gaussian2D x y A xc yc sg)
                                      (columns (parameters self))))) X Y)"

section \<open>The rotation series\<close>

text \<open>\<^verbatim>\<open>np.linspace(start, stop, num, endpoint=False)\<close>\<close>

definition linspace :: "real \<Rightarrow> real \<Rightarrow> nat \<Rightarrow> real list" where
  "linspace start stop num = map (\<lambda>i. start + real i * ((stop - start) / real num)) [0..<num]"

text \<open>\<^verbatim>\<open>side = np.minimum(*img.shape); img[:side, :side]\<close>\<close>

definition trim_square :: "image \<Rightarrow> image" where
  "trim_square img =
     (let side = min (fst (shape img)) (snd (shape img))
      in map (take side) (take side img))"

text \<open>
  The loop of \<open>get_rotation_series\<close> over the scan angles. \<open>kwargs\<close> holds the keyword
  arguments passed on to the constructor; the ones the driver sets itself are overwritten.
  \<^verbatim>\<open>
  for scanangle in tqdm(scanangles):
      m = ImageModel(atoms, scan_rotation=scanangle,
                  pixel_size=pixel_size, vacuum=vacuum,
                      drift_speed=drift_speed,
                      drift_vector=drift_vector,
                      jitter_strength=jitter_strength,
                      centre_drift=centre_drift,
                      fast=False, **kwargs
                  )
      img = m.generate()
      side = np.minimum(*img.shape)
      images.append(img[:side, :side])
  \<close>
\<close>

record series_args =
  sa_atoms :: "Atoms option"
  sa_vacuum :: real
  sa_pixel_size :: real
  sa_nImages :: nat
  sa_minScanAngle :: real
  sa_maxScanAngle :: real
  sa_drift_speed :: real
  sa_drift_angle :: "real option"
  sa_jitter_strength :: strength
  sa_kwargs :: init_args

definition default_series_args :: series_args where
  "default_series_args =
     \<lparr>sa_atoms = None, sa_vacuum = 10, sa_pixel_size = 1 / 10, sa_nImages = 4,
      sa_minScanAngle = 0, sa_maxScanAngle = 360, sa_drift_speed = 5,
      sa_drift_angle = None, sa_jitter_strength = Scalar 0, sa_kwargs = default_args\<rparr>"

definition series_model_args :: "series_args \<Rightarrow> Atoms \<Rightarrow> real \<times> real \<Rightarrow> real \<Rightarrow> init_args" where
  "series_model_args sa atoms dvec scanangle =
     (sa_kwargs sa)\<lparr>arg_atoms := Some atoms, arg_scan_rotation := scanangle,
        arg_pixel_size := sa_pixel_size sa, arg_vacuum := sa_vacuum sa,
        arg_drift_speed := sa_drift_speed sa, arg_drift_vector := dvec,
        arg_jitter_strength := sa_jitter_strength sa, arg_centre_drift := True,
        arg_fast := False\<rparr>"

fun series_loop ::
  "series_args \<Rightarrow> Atoms \<Rightarrow> real \<times> real \<Rightarrow> real list \<Rightarrow> rng \<Rightarrow> py_error + (image list \<times> rng)" where
  "series_loop sa atoms dvec [] g = Inr ([], g)"
| "series_loop sa atoms dvec (scanangle # rest) g =
     (case ImageModel_init (series_model_args sa atoms dvec scanangle) g of
        Inl e \<Rightarrow> Inl e
      | Inr (m, g1) \<Rightarrow>
         (case series_loop sa atoms dvec rest g1 of
            Inl e \<Rightarrow> Inl e
          | Inr (images, g2) \<Rightarrow> Inr (trim_square (generate m) # images, g2)))"

text \<open>
  \<^verbatim>\<open>
  if atoms is None:
      atoms = get_example_atoms()
  if drift_angle is None:
      random_angle = np.random.random() * 2*np.pi
  else:
      random_angle = drift_angle
  drift_vector = [np.cos(random_angle),np.sin(random_angle)]
  centre_drift = True
  images = []
  scanangles = np.linspace(minScanAngle, maxScanAngle, nImages, endpoint=False)
  ...
  images = cp.stack(images)
  return images, scanangles, random_angle
  \<close>
  No \<open>get_example_atoms\<close> is defined in the module (NameError); \<^verbatim>\<open>stack\<close> raises ValueError
  on an empty list and on images of different shapes.
\<close>

definition get_rotation_series ::
  "series_args \<Rightarrow> rng \<Rightarrow> py_error + ((image list \<times> real list \<times> real) \<times> rng)" where
  "get_rotation_series sa g =
     (case sa_atoms sa of
        None \<Rightarrow> Inl NameError
      | Some atoms \<Rightarrow>
         (let (random_angle, g0) =
                (case sa_drift_angle sa of
                   None \<Rightarrow> (let (r, g') = random_sample 1 g in (hd r * (2 * pi), g'))
                 | Some a \<Rightarrow> (a, g));
              dvec = (cos random_angle, sin random_angle);
              scanangles = linspace (sa_minScanAngle sa) (sa_maxScanAngle sa) (sa_nImages sa)
          in case series_loop sa atoms dvec scanangles g0 of
               Inl e \<Rightarrow> Inl e
             | Inr (images, g1) \<Rightarrow>
                (if images = [] \<or> (\<exists>img \<in> set images. shape img \<noteq> shape (hd images))
                 then Inl ValueError
                 else Inr ((images, scanangles, random_angle), g1))))"

section \<open>Example inputs\<close>

text \<open>A generator that returns the listed values, then zeros.\<close>

definition list_rng :: "real list \<Rightarrow> rng" where
  "list_rng xs i = (if i < length xs then xs ! i else 0)"

text \<open>
  One atom of atomic number 1 at the origin, a margin of 1 and pixels of size 1: the mesh
  is the 3 by 3 grid on \<open>{-1, 0, 1}\<close>.
\<close>

definition one_atom_args :: init_args where
  "one_atom_args =
     default_args\<lparr>arg_atoms := Some [((0, 0, 0), 1)], arg_vacuum := 1, arg_pixel_size := 1\<rparr>"

text \<open>
  No atoms object; two positions given as an array of shape \<open>(2, 2)\<close>, or as a list, with
  their atomic numbers.
\<close>

definition positions_array_args :: init_args where
  "positions_array_args =
     default_args\<lparr>arg_positions := PosArray [(0, 0), (1, 1)], arg_numbers := Some [1, 1]\<rparr>"

definition positions_list_args :: init_args where
  "positions_list_args =
     default_args\<lparr>arg_positions := PosList [(0, 0), (1, 1)], arg_numbers := Some [1, 1]\<rparr>"

text \<open>One atom at the origin and no margin: the bounding box is a point.\<close>

definition zero_extent_args :: init_args where
  "zero_extent_args = default_args\<lparr>arg_atoms := Some [((0, 0, 0), 1)], arg_vacuum := 0\<rparr>"

text \<open>An atoms object with no atom.\<close>

definition no_atoms_args :: init_args where
  "no_atoms_args = default_args\<lparr>arg_atoms := Some []\<rparr>"

text \<open>
  The one-atom example with a drift of speed 9 along \<open>(1, 0)\<close>, as the object stands after
  the attribute assignments of the constructor.
\<close>

definition drift_model :: ImageModel where
  "drift_model = init_fields (one_atom_args\<lparr>arg_drift_speed := 9\<rparr>) [(0, 0)] [1]"




text \<open>
  A rotation series with the defaults of the driver (four images over 0 to 360 degrees,
  drift speed 5, no drift angle given) on one atom, with a margin of 1 and pixels of size 1.
\<close>

definition series_example :: series_args where
  "series_example =
     default_series_args\<lparr>sa_atoms := Some [((0, 0, 0), 1)], sa_vacuum := 1, sa_pixel_size := 1\<rparr>"

section \<open>Properties\<close>

lemma concat_index_rows:
  "concat (map (\<lambda>i. map (\<lambda>j. f (i * n1 + j)) [0..<n1]) [0..<n0]) = map f [0..<n0 * n1]"
proof (induction n0)
  case 0
  show ?case by simp
next
  case (Suc n)
  have "map f [0..<n * n1 + n1] = map f [0..<n * n1] @ map f [n * n1..<n * n1 + n1]"
    by (metis le_add1 map_append upt_add_eq_append zero_le)
  moreover have "map f [n * n1..<n * n1 + n1] = map (\<lambda>j. f (n * n1 + j)) [0..<n1]"
  proof -
    have "[n * n1..<n * n1 + n1] = map (\<lambda>j. j + n * n1) [0..<n1]"
      by (simp add: map_add_upt add.commute)
    then show ?thesis by (simp add: comp_def add.commute)
  qed
  ultimately show ?case using Suc by (simp add: add.commute)
qed

lemma add_drift_chan0:
  "chan0 (add_drift (n0, n1) (vx, vy) s) =
     map (\<lambda>i. map (\<lambda>j. s / real (n0 * n1) * (- vx) * real (i * n1 + j)) [0..<n1]) [0..<n0]"
  by (simp add: add_drift_def chan0_def Let_def comp_def)

lemma add_drift_chan1:
  "chan1 (add_drift (n0, n1) (vx, vy) s) =
     map (\<lambda>i. map (\<lambda>j. s / real (n0 * n1) * (- vy) * real (i * n1 + j)) [0..<n1]) [0..<n0]"
  by (simp add: add_drift_def chan1_def Let_def comp_def)

lemma add_drift_rows:
  "add_drift (n0, n1) (vx, vy) s =
     map (\<lambda>i. map (\<lambda>j. (s / real (n0 * n1) * (- vx) * real (i * n1 + j),
                           s / real (n0 * n1) * (- vy) * real (i * n1 + j))) [0..<n1]) [0..<n0]"
  by (simp add: add_drift_def Let_def comp_def)

lemma add_drift_flat0:
  "concat (chan0 (add_drift (n0, n1) (vx, vy) s)) =
     map (\<lambda>k. s / real (n0 * n1) * (- vx) * real k) [0..<n0 * n1]"
  unfolding add_drift_chan0
  by (rule concat_index_rows [where f = "\<lambda>k. s / real (n0 * n1) * (- vx) * real k"])

lemma add_drift_flat1:
  "concat (chan1 (add_drift (n0, n1) (vx, vy) s)) =
     map (\<lambda>k. s / real (n0 * n1) * (- vy) * real k) [0..<n0 * n1]"
  unfolding add_drift_chan1
  by (rule concat_index_rows [where f = "\<lambda>k. s / real (n0 * n1) * (- vy) * real k"])

lemma add_drift_lengths: "map length (add_drift (n0, n1) (vx, vy) s) = replicate n0 n1"
  unfolding add_drift_rows by (simp add: comp_def map_replicate_const)

text \<open>
  C4. For every spatial shape \<open>(n0, n1)\<close>, direction \<open>(vx, vy)\<close> and speed \<open>s\<close>, the field
  returned by \<open>add_drift\<close> has shape \<open>(2, n0, n1)\<close>, and in each channel the pixel with
  flattened (row-major) index \<open>k\<close> holds \<open>(s / (n0 * n1)) * (- v) * k\<close>. Speed \<open>0\<close> gives the
  all-zero field, and multiplying the speed by \<open>c\<close> multiplies the field by \<open>c\<close>.
\<close>

theorem add_drift_linear_in_index:
  "concat (chan0 (add_drift (n0, n1) (vx, vy) s)) =
     map (\<lambda>k. s / real (n0 * n1) * (- vx) * real k) [0..<n0 * n1]
   \<and> concat (chan1 (add_drift (n0, n1) (vx, vy) s)) =
     map (\<lambda>k. s / real (n0 * n1) * (- vy) * real k) [0..<n0 * n1]
   \<and> map length (add_drift (n0, n1) (vx, vy) s) = replicate n0 n1
   \<and> add_drift (n0, n1) (vx, vy) 0 = zeros n0 n1
   \<and> add_drift (n0, n1) (vx, vy) (c * s) =
       map (map (\<lambda>(dx, dy). (c * dx, c * dy))) (add_drift (n0, n1) (vx, vy) s)"
proof -
  have zero: "add_drift (n0, n1) (vx, vy) 0 = zeros n0 n1"
    by (simp add: add_drift_rows zeros_def map_replicate_const)
  have lin: "add_drift (n0, n1) (vx, vy) (c * s) =
       map (map (\<lambda>(dx, dy). (c * dx, c * dy))) (add_drift (n0, n1) (vx, vy) s)"
    by (simp add: add_drift_rows comp_def mult.assoc)
  from add_drift_flat0 add_drift_flat1 add_drift_lengths zero lin show ?thesis
    by (intro conjI)
qed

lemma map2_fst_snd: "map2 f (map fst r) (map snd r) = map (\<lambda>(x, y). f x y) r"
  by (induction r) auto

lemma map2_chan: "map2 (map2 f) (chan0 p) (chan1 p) = map (map (\<lambda>(x, y). f x y)) p"
  by (induction p) (auto simp: chan0_def chan1_def map2_fst_snd)

lemma map2_same: "map2 f (map h r) (map k r) = map (\<lambda>q. f (h q) (k q)) r"
  by (induction r) auto

lemma img_add_map: "img_add (map (map h) p) (map (map k) p) = map (map (\<lambda>q. fadd (h q) (k q))) p"
  by (induction p) (auto simp: img_add_def map2_same)

lemma generate_loop_map:
  "generate_loop (chan0 p) (chan1 p) cols (map (map h) p) =
     map (map (\<lambda>(x, y). foldl fadd (h (x, y))
        (map (\<lambda>(A, xc, yc, sg). Gaussian2D x y A xc yc sg) cols))) p"
proof (induction cols arbitrary: h)
  case Nil
  show ?case by (simp add: case_prod_beta)
next
  case (Cons c cols)
  obtain A xc yc sg where c: "c = (A, xc, yc, sg)" by (cases c) auto
  show ?case
    unfolding c generate_loop.simps map2_chan img_add_map
    by (simp add: Cons.IH case_prod_beta)
qed


lemma fadd_commute: "fadd a b = fadd b a"
  by (simp add: fadd_def split: option.splits)

lemma fadd_assoc: "fadd (fadd a b) c = fadd a (fadd b c)"
  by (simp add: fadd_def split: option.splits)

lemma foldl_fadd_shift: "foldl fadd (fadd a b) vs = fadd a (foldl fadd b vs)"
  by (induction vs arbitrary: b) (simp_all add: fadd_assoc)

lemma foldl_fadd_fsum: "foldl fadd (Some 0) vs = fsum vs"
proof (induction vs)
  case Nil
  show ?case by (simp add: fsum_def)
next
  case (Cons v vs)
  have "foldl fadd (Some 0) (v # vs) = foldl fadd (fadd v (Some 0)) vs"
    by (simp add: fadd_commute)
  also have "\<dots> = fadd v (foldl fadd (Some 0) vs)" by (rule foldl_fadd_shift)
  finally show ?case using Cons by (simp add: fsum_def)
qed

lemma generate_pixels:
  "generate self =
     map (map (\<lambda>(x, y). fsum (map (\<lambda>(A, xc, yc, sg). Gaussian2D x y A xc yc sg)
                                   (columns (parameters self))))) (probe_positions self)"
proof -
  have z: "map (map (\<lambda>x. Some 0)) (chan0 p) = map (map (\<lambda>q. Some (0::real))) p" for p
    by (simp add: chan0_def comp_def)
  show ?thesis
    unfolding generate_def Let_def z generate_loop_map foldl_fadd_fsum ..
qed

text \<open>
  C2. For every image model, whatever its stored probe grid and parameters, the loop of
  \<open>generate\<close>, which adds one atom after the other, and the broadcast of
  \<open>generate_cupy_ram\<close>, which sums over all atoms at once, return the same image: the same
  shape and the same value at every pixel, hence equal within any tolerance.
\<close>

theorem generate_strategies_agree: "generate self = generate_cupy_ram self"
  unfolding generate_pixels generate_cupy_ram_def Let_def map2_chan ..


lemma create_probe_positions_updates:
  assumes "create_probe_positions self g = Inr (self', g')"
  shows "\<exists>p. self' = self\<lparr>probe_positions := p\<rparr>"
  using assms unfolding create_probe_positions_def
  by (auto split: sum.splits)

lemma select_atoms_Inr:
  assumes "select_atoms args = Inr (ps, ns)"
  shows "\<exists>ats. arg_atoms args = Some ats \<and> ats \<noteq> [] \<and>
           ps = map (\<lambda>((x, y, z), n). (x, y)) ats \<and> ns = Some (map snd ats)"
  using assms unfolding select_atoms_def not_positions_def slice_xy_def
  by (auto split: option.splits list.splits sum.splits bool.splits positions_value.splits if_splits)

lemma ImageModel_init_Inr:
  assumes "ImageModel_init args g = Inr (m, g')"
  shows "length (atom_positions m) = length (atom_numbers m)
       \<and> number_of_atoms m = length (atom_numbers m)
       \<and> sigma m = arg_sigma args \<and> power_n m = arg_power args
       \<and> parameters m = (map (\<lambda>z. float_power z (power_n m)) (atom_numbers m),
                          map fst (atom_positions m), map snd (atom_positions m),
                          replicate (number_of_atoms m) (sigma m))"
proof -
  from assms obtain ps ns where sel: "select_atoms args = Inr (ps, Some ns)"
    unfolding ImageModel_init_def by (auto split: sum.splits option.splits prod.splits)
  from select_atoms_Inr [OF sel] have len: "length ps = length ns" by auto
  from assms sel len show ?thesis
    unfolding ImageModel_init_def Let_def
    by (auto split: sum.splits if_splits simp: create_parameters_def init_fields_def Let_def
             dest!: create_probe_positions_updates)
qed


lemma fsum_Some: "fsum (map Some vs) = Some (sum_list vs)"
  by (induction vs) (simp_all add: fsum_def fadd_def)

lemma fsum_upt: "fsum (map (\<lambda>i. Some (f i)) [0..<n]) = Some (\<Sum>i<n. f i)"
proof -
  have "map (\<lambda>i. Some (f i)) [0..<n] = map Some (map f [0..<n])" by simp
  then have "fsum (map (\<lambda>i. Some (f i)) [0..<n]) = Some (sum_list (map f [0..<n]))"
    by (simp only: fsum_Some)
  also have "sum_list (map f [0..<n]) = (\<Sum>i<n. f i)"
    by (simp add: interv_sum_list_conv_sum_set_nat atLeast0LessThan)
  finally show ?thesis .
qed

lemma float_power_pos: "0 < z \<Longrightarrow> float_power z p = Some (real z powr p)"
  by (simp add: float_power_def)

lemma Gaussian2D_Some:
  assumes "sg \<noteq> 0"
  shows "Gaussian2D x y (Some a) xc yc sg =
     Some (a * exp (- ((x - xc)\<^sup>2 + (y - yc)\<^sup>2) / (2 * sg\<^sup>2)))"
proof -
  from assms have "2 * sg\<^sup>2 \<noteq> 0" by simp
  then show ?thesis
    unfolding Gaussian2D_def Let_def by (simp only: if_False option.case)
qed

lemma columns_gaussians:
  assumes len: "length ps = length ns" and sg: "sg \<noteq> 0" and pos: "0 \<notin> set ns"
  shows "map (\<lambda>(A, xc, yc, s). Gaussian2D x y A xc yc s)
           (columns (map (\<lambda>z. float_power z p) ns, map fst ps, map snd ps,
                     replicate (length ns) sg)) =
         map (\<lambda>i. Some (real (ns ! i) powr p *
                exp (- ((x - fst (ps ! i))\<^sup>2 + (y - snd (ps ! i))\<^sup>2) / (2 * sg\<^sup>2))))
           [0..<length ns]"
proof (rule nth_equalityI)
  show "length (map (\<lambda>(A, xc, yc, s). Gaussian2D x y A xc yc s)
           (columns (map (\<lambda>z. float_power z p) ns, map fst ps, map snd ps,
                     replicate (length ns) sg))) =
        length (map (\<lambda>i. Some (real (ns ! i) powr p *
                exp (- ((x - fst (ps ! i))\<^sup>2 + (y - snd (ps ! i))\<^sup>2) / (2 * sg\<^sup>2))))
           [0..<length ns])"
    using len by (simp add: columns_def)
next
  fix i
  assume "i < length (map (\<lambda>(A, xc, yc, s). Gaussian2D x y A xc yc s)
           (columns (map (\<lambda>z. float_power z p) ns, map fst ps, map snd ps,
                     replicate (length ns) sg)))"
  then have i: "i < length ns" using len by (simp add: columns_def)
  then have "ns ! i \<in> set ns" by simp
  with pos have "0 < ns ! i" by (metis gr0I)
  with i len sg show "map (\<lambda>(A, xc, yc, s). Gaussian2D x y A xc yc s)
           (columns (map (\<lambda>z. float_power z p) ns, map fst ps, map snd ps,
                     replicate (length ns) sg)) ! i =
        map (\<lambda>i. Some (real (ns ! i) powr p *
                exp (- ((x - fst (ps ! i))\<^sup>2 + (y - snd (ps ! i))\<^sup>2) / (2 * sg\<^sup>2))))
           [0..<length ns] ! i"
    by (simp add: columns_def float_power_pos Gaussian2D_Some)
qed

text \<open>
  C1. For every image model the constructor returns, with a nonzero \<open>sigma\<close> and atomic
  numbers that are positive, the image of \<open>generate\<close> has the shape of the probe grid and
  holds, at the pixel of probe position \<open>(x, y)\<close>, the sum over the atoms \<open>i\<close> of
  \<open>Z\<^sub>i ^ power * exp (- ((x - xc\<^sub>i)\<^sup>2 + (y - yc\<^sub>i)\<^sup>2) / (2 * sigma\<^sup>2))\<close>, where \<open>(xc\<^sub>i, yc\<^sub>i)\<close> is the
  position of atom \<open>i\<close> and \<open>sigma\<close> the model's one width.
\<close>

theorem generate_sum_of_gaussians:
  assumes init: "ImageModel_init args g = Inr (m, g')"
    and sg: "sigma m \<noteq> 0"
    and pos: "0 \<notin> set (atom_numbers m)"
  shows "generate m =
     map (map (\<lambda>(x, y). Some (\<Sum>i<number_of_atoms m.
            real (atom_numbers m ! i) powr power_n m *
            exp (- ((x - fst (atom_positions m ! i))\<^sup>2 + (y - snd (atom_positions m ! i))\<^sup>2)
                   / (2 * (sigma m)\<^sup>2)))))
       (probe_positions m)"
proof -
  note inv = ImageModel_init_Inr [OF init]
  from inv have len: "length (atom_positions m) = length (atom_numbers m)"
    and n: "number_of_atoms m = length (atom_numbers m)" by simp_all
  from inv n have par: "parameters m =
      (map (\<lambda>z. float_power z (power_n m)) (atom_numbers m),
       map fst (atom_positions m), map snd (atom_positions m),
       replicate (length (atom_numbers m)) (sigma m))" by simp
  show ?thesis
    unfolding generate_pixels par columns_gaussians [OF len sg pos] fsum_upt n ..
qed

lemma upt_3: "[0..<3] = [0, 1, 2]"
  by (simp add: upt_rec numeral_nat)

lemmas init_eval = ImageModel_init_def init_fields_def select_atoms_def create_probe_positions_def probe_grid_def
  axis_ranges_def jitter_step_def rotation_step_def drift_step_def Let_def arange_def
  strength_truthy_def meshgrid_def create_parameters_def float_power_def default_args_def

lemma one_atom_init:
  "ImageModel_init one_atom_args (list_rng []) =
     Inr (\<lparr>atom_positions = [(0, 0)], atom_numbers = [1], number_of_atoms = 1,
            pixel_size = 1, sigma = 2 / 5, power_n = 9 / 5, jitter_strength = Scalar 0,
            jitter_horizontal = True, jitter_vertical = False,
            drift_speed = 0, drift_vector = (1, 0), centre_drift = True,
            scan_rotation = 0, square = False, margin = 1,
            probe_positions =
              [[(- 1, - 1), (0, - 1), (1, - 1)], [(- 1, 0), (0, 0), (1, 0)],
               [(- 1, 1), (0, 1), (1, 1)]],
            parameters = ([Some 1], [0], [0], [2 / 5])\<rparr>, list_rng [])"
  by (simp add: one_atom_args_def init_eval upt_3)

text \<open>The one-atom example satisfies the hypotheses of C1.\<close>

theorem generate_sum_of_gaussians_witness:
  "(case ImageModel_init one_atom_args (list_rng []) of
      Inl e \<Rightarrow> False
    | Inr (m, g') \<Rightarrow> sigma m \<noteq> 0 \<and> 0 \<notin> set (atom_numbers m) \<and>
        generate m =
          map (map (\<lambda>(x, y). Some (\<Sum>i<number_of_atoms m.
                 real (atom_numbers m ! i) powr power_n m *
                 exp (- ((x - fst (atom_positions m ! i))\<^sup>2 + (y - snd (atom_positions m ! i))\<^sup>2)
                        / (2 * (sigma m)\<^sup>2)))))
            (probe_positions m))"
  using generate_sum_of_gaussians [OF one_atom_init]
  by (simp add: one_atom_init)


lemma ImageModel_init_isl:
  "isl (ImageModel_init args g) =
     (case select_atoms args of
        Inl e \<Rightarrow> True
      | Inr (ps, None) \<Rightarrow> True
      | Inr (ps, Some ns) \<Rightarrow>
          (arg_fast args \<and> length ps \<noteq> length ns) \<or>
          isl (probe_grid
                 (init_fields args
                    (if arg_fast args then map fst (sort (remdups (zip ps ns))) else ps)
                    (if arg_fast args then map snd (sort (remdups (zip ps ns))) else ns)) g))"
  unfolding ImageModel_init_def create_probe_positions_def Let_def
  by (simp split: sum.splits option.splits prod.splits)


lemma fsum_None: "None \<in> set vs \<Longrightarrow> fsum vs = None"
  by (induction vs) (auto simp: fsum_def fadd_def split: option.splits)

lemma ImageModel_init_atoms:
  assumes "ImageModel_init args g = Inr (m, g')"
  shows "atom_numbers m \<noteq> []"
proof -
  from assms obtain ps ns where sel: "select_atoms args = Inr (ps, Some ns)"
    unfolding ImageModel_init_def by (auto split: sum.splits option.splits prod.splits)
  from select_atoms_Inr [OF sel] have ne: "ps \<noteq> []" "ns \<noteq> []" "length ps = length ns"
    by auto
  then have z: "zip ps ns \<noteq> []" by (cases ps; cases ns) auto
  then have "sort (remdups (zip ps ns)) \<noteq> []"
    by (metis length_0_conv length_sort remdups_eq_nil_iff)
  with assms sel ne show ?thesis
    unfolding ImageModel_init_def Let_def
    by (auto split: sum.splits if_splits simp: create_parameters_def init_fields_def
             dest!: create_probe_positions_updates)
qed






lemma explicit_positions_never_accepted:
  assumes "arg_atoms args = None \<or> arg_atoms args = Some []"
  shows "isl (ImageModel_init args g)"
proof (cases "select_atoms args")
  case (Inl e)
  then show ?thesis by (simp add: ImageModel_init_def)
next
  case (Inr r)
  obtain ps ns where "r = (ps, ns)" by (cases r) auto
  with Inr select_atoms_Inr [of args ps ns] assms show ?thesis by auto
qed

text \<open>
  C9. The constructor is documented to take a list of positions and atomic numbers in
  place of an atoms object. Constructing with \<open>atoms = None\<close>, two positions and their
  numbers fails: on an array the test \<^verbatim>\<open>not positions\<close> raises ValueError, and on a list the
  slice \<^verbatim>\<open>positions[:,:2]\<close> raises TypeError.
\<close>

theorem explicit_positions_raise:
  "ImageModel_init positions_array_args (list_rng []) = Inl ValueError
   \<and> ImageModel_init positions_list_args (list_rng []) = Inl TypeError"
  by (simp add: positions_array_args_def positions_list_args_def default_args_def
        ImageModel_init_def select_atoms_def not_positions_def slice_xy_def)

lemma probe_grid_succeeds:
  assumes "atom_positions self \<noteq> []" "pixel_size self \<noteq> 0" "drift_speed self = 0"
  shows "\<not> isl (probe_grid self g)"
  using assms
  by (simp add: probe_grid_def axis_ranges_def arange_def drift_step_def Let_def
        split: prod.splits)

lemma select_atoms_Some:
  "arg_atoms args = Some (a # as) \<Longrightarrow>
     select_atoms args = Inr (map (\<lambda>((x, y, z), n). (x, y)) (a # as), Some (map snd (a # as)))"
  by (simp add: select_atoms_def)

lemma axis_ranges_point:
  assumes "atom_positions self = [(x, y)]" "margin self = 0" "\<not> square self"
    "pixel_size self \<noteq> 0"
  shows "axis_ranges self = Inr ([], [])"
  using assms by (simp add: axis_ranges_def arange_def)

lemma jitter_step_empty: "fst (jitter_step self sh [] g) = []"
  by (simp add: jitter_step_def grid_add_def split: prod.splits)

lemma rotation_step_empty: "rotation_step self [] = []"
  by (simp add: rotation_step_def rotate_about_mean_def Let_def split: prod.splits)

lemma probe_grid_point:
  assumes "atom_positions self = [(x, y)]" "margin self = 0" "\<not> square self"
    "pixel_size self \<noteq> 0" "drift_speed self = 0"
  shows "\<exists>g1. probe_grid self g = Inr ([], g1)"
proof -
  obtain p1 g1 where j: "jitter_step self (0, 0) [] g = (p1, g1)"
    by (cases "jitter_step self (0, 0) [] g") auto
  with jitter_step_empty [of self "(0, 0)" g] have p1: "p1 = []" by simp
  have "probe_grid self g = Inr ([], g1)"
    using assms(5)
    by (simp add: probe_grid_def axis_ranges_point [OF assms(1-4)] meshgrid_def j p1
          rotation_step_empty drift_step_def)
  then show ?thesis by blast
qed

text \<open>
  C8, as the code has it. There is no geometry check. An atoms object without atoms
  makes the constructor fail, through the test for a missing input: with AttributeError
  when no positions are given. A bounding box of zero extent is accepted: with at least
  one atom, a nonzero pixel size and no drift the constructor returns a model, and for one
  atom with no margin (and \<open>square\<close> off) the probe grid of that model is empty.
\<close>

theorem ImageModel_init_no_geometry_check:
  "(arg_atoms args = Some [] \<longrightarrow> isl (ImageModel_init args g))
   \<and> (arg_atoms args = Some [] \<and> arg_positions args = PosNone \<longrightarrow>
        ImageModel_init args g = Inl AttributeError)
   \<and> (arg_atoms args = Some (a # as) \<and> arg_pixel_size args \<noteq> 0 \<and> arg_drift_speed args = 0 \<longrightarrow>
        \<not> isl (ImageModel_init args g))
   \<and> (arg_atoms args = Some [a] \<and> arg_vacuum args = 0 \<and> \<not> arg_square args \<and>
       arg_pixel_size args \<noteq> 0 \<and> arg_drift_speed args = 0 \<longrightarrow>
        \<not> isl (ImageModel_init args g) \<and>
        probe_positions (fst (projr (ImageModel_init args g))) = [])"
proof -
  have c1: "arg_atoms args = Some [] \<longrightarrow> isl (ImageModel_init args g)"
    using explicit_positions_never_accepted by blast
  have c2: "arg_atoms args = Some [] \<and> arg_positions args = PosNone \<longrightarrow>
        ImageModel_init args g = Inl AttributeError"
    by (simp add: ImageModel_init_def select_atoms_def not_positions_def)
  have c3: "arg_atoms args = Some (a # as) \<and> arg_pixel_size args \<noteq> 0 \<and>
        arg_drift_speed args = 0 \<longrightarrow> \<not> isl (ImageModel_init args g)"
  proof
    assume h: "arg_atoms args = Some (a # as) \<and> arg_pixel_size args \<noteq> 0 \<and>
        arg_drift_speed args = 0"
    then have at: "arg_atoms args = Some (a # as)" and px: "arg_pixel_size args \<noteq> 0"
      and ds: "arg_drift_speed args = 0" by simp_all
    define ps where "ps = map (\<lambda>((x, y, z), n). (x, y)) (a # as)"
    define ns where "ns = map snd (a # as)"
    have sel: "select_atoms args = Inr (ps, Some ns)"
      unfolding ps_def ns_def by (rule select_atoms_Some [OF at])
    have len: "length ps = length ns" and ne: "ps \<noteq> []"
      by (simp_all add: ps_def ns_def)
    have "zip ps ns \<noteq> []" by (simp add: ps_def ns_def)
    then have une: "sort (remdups (zip ps ns)) \<noteq> []"
      by (metis length_0_conv length_sort remdups_eq_nil_iff)
    have pg: "\<not> isl (probe_grid (init_fields args ps' ns') g)" if "ps' \<noteq> []" for ps' ns'
      using that px ds by (intro probe_grid_succeeds) (simp_all add: init_fields_def)
    show "\<not> isl (ImageModel_init args g)"
    proof (cases "arg_fast args")
      case True
      with une show ?thesis
        unfolding ImageModel_init_isl sel by (simp add: len pg)
    next
      case False
      with ne show ?thesis
        unfolding ImageModel_init_isl sel by (simp add: pg)
    qed
  qed
  have c4: "arg_atoms args = Some [a] \<and> arg_vacuum args = 0 \<and> \<not> arg_square args \<and>
       arg_pixel_size args \<noteq> 0 \<and> arg_drift_speed args = 0 \<longrightarrow>
        \<not> isl (ImageModel_init args g) \<and>
        probe_positions (fst (projr (ImageModel_init args g))) = []"
  proof
    assume h: "arg_atoms args = Some [a] \<and> arg_vacuum args = 0 \<and> \<not> arg_square args \<and>
       arg_pixel_size args \<noteq> 0 \<and> arg_drift_speed args = 0"
    obtain x y z n where a: "a = ((x, y, z), n)" by (cases a) auto
    have sel: "select_atoms args = Inr ([(x, y)], Some [n])"
      using h by (simp add: select_atoms_def a)
    have u: "sort (remdups (zip [(x, y)] [n])) = [((x, y), n)]" by simp
    let ?self = "init_fields args [(x, y)] [n]"
    have "\<exists>g1. probe_grid ?self g = Inr ([], g1)"
      using h by (intro probe_grid_point) (simp_all add: init_fields_def)
    then obtain g1 where pg: "probe_grid ?self g = Inr ([], g1)" ..
    have "ImageModel_init args g = Inr (create_parameters (?self\<lparr>probe_positions := []\<rparr>), g1)"
      unfolding ImageModel_init_def sel Let_def u create_probe_positions_def
      by (simp add: pg)
    then show "\<not> isl (ImageModel_init args g) \<and>
        probe_positions (fst (projr (ImageModel_init args g))) = []"
      by (simp add: create_parameters_def Let_def)
  qed
  from c1 c2 c3 c4 show ?thesis by (intro conjI)
qed

text \<open>
  The example without atoms, and the example of one atom with no margin, satisfy the
  hypotheses.
\<close>

theorem ImageModel_init_no_geometry_check_witness:
  "arg_atoms no_atoms_args = Some [] \<and> arg_positions no_atoms_args = PosNone
   \<and> isl (ImageModel_init no_atoms_args (list_rng []))
   \<and> ImageModel_init no_atoms_args (list_rng []) = Inl AttributeError
   \<and> arg_atoms zero_extent_args = Some [((0, 0, 0), 1)] \<and> arg_vacuum zero_extent_args = 0
   \<and> \<not> arg_square zero_extent_args \<and> arg_pixel_size zero_extent_args \<noteq> 0
   \<and> arg_drift_speed zero_extent_args = 0
   \<and> \<not> isl (ImageModel_init zero_extent_args (list_rng []))
   \<and> probe_positions (fst (projr (ImageModel_init zero_extent_args (list_rng [])))) = []"
proof -
  have a: "arg_atoms no_atoms_args = Some [] \<and> arg_positions no_atoms_args = PosNone"
    by (simp add: no_atoms_args_def default_args_def)
  have b: "arg_atoms zero_extent_args = Some [((0, 0, 0), 1)] \<and> arg_vacuum zero_extent_args = 0
      \<and> \<not> arg_square zero_extent_args \<and> arg_pixel_size zero_extent_args \<noteq> 0
      \<and> arg_drift_speed zero_extent_args = 0"
    by (simp add: zero_extent_args_def default_args_def)
  from a b
    ImageModel_init_no_geometry_check [where args = no_atoms_args and g = "list_rng []"]
    ImageModel_init_no_geometry_check [where args = zero_extent_args and g = "list_rng []"
      and a = "((0, 0, 0), 1)" and as = "[]"]
  show ?thesis by simp
qed

text \<open>
  C8 as stated fails: one atom with no margin has a bounding box of zero extent, and the
  constructor raises nothing and returns a model whose probe grid has no pixel.
\<close>

theorem zero_extent_not_rejected:
  "\<not> isl (ImageModel_init zero_extent_args (list_rng []))
   \<and> probe_positions (fst (projr (ImageModel_init zero_extent_args (list_rng [])))) = []"
  by (simp add: zero_extent_args_def init_eval)

lemma add_column0_rows:
  "add_column0 (map (\<lambda>i. replicate w (a i, b i)) [0..<h]) (map k [0..<h]) =
     map (\<lambda>i. replicate w (a i + k i, b i)) [0..<h]"
  unfolding add_column0_def map2_same by simp

lemma add_column1_rows:
  "add_column1 (map (\<lambda>i. replicate w (a i, b i)) [0..<h]) (map k [0..<h]) =
     map (\<lambda>i. replicate w (a i, b i + k i)) [0..<h]"
  unfolding add_column1_def map2_same by simp

lemma zeros_rows: "zeros h w = map (\<lambda>i. replicate w (0, 0)) [0..<h]"
  by (simp add: zeros_def map_replicate_const)

lemma add_line_jitter_Tuple:
  "add_line_jitter (h, w) (Tuple sx sy) hz vt g =
     (map (\<lambda>i. replicate w
             (if hz then sx * (2 * g i - 1) else 0,
              if vt then sy * (2 * g ((if hz then h else 0) + i) - 1) else 0)) [0..<h],
      \<lambda>i. g ((if hz then h else 0) + ((if vt then h else 0) + i)))"
proof -
  have x: "add_column0 (zeros h w) (map k [0..<h]) = map (\<lambda>i. replicate w (k i, 0)) [0..<h]"
    for k
    using add_column0_rows [of w "\<lambda>i. 0" "\<lambda>i. 0" h k] by (simp add: zeros_rows)
  have y: "add_column1 (map (\<lambda>i. replicate w (a i, 0)) [0..<h]) (map k [0..<h]) =
      map (\<lambda>i. replicate w (a i, k i)) [0..<h]" for a k
    using add_column1_rows [of w a "\<lambda>i. 0" h k] by simp
  have y0: "add_column1 (zeros h w) (map k [0..<h]) = map (\<lambda>i. replicate w (0, k i)) [0..<h]"
    for k
    using y [of "\<lambda>i. 0" k] by (simp add: zeros_rows)
  have r: "random_sample h g' = (map g' [0..<h], \<lambda>i. g' (h + i))" for g'
    by (simp add: random_sample_def)
  show ?thesis
  proof (cases hz)
    case True
    note hz = this
    show ?thesis
    proof (cases vt)
      case True
      with hz show ?thesis
        by (simp add: add_line_jitter_def Let_def r comp_def x y add.assoc)
    next
      case False
      with hz show ?thesis
        by (simp add: add_line_jitter_def Let_def r comp_def x)
    qed
  next
    case False
    note hz = this
    show ?thesis
    proof (cases vt)
      case True
      with hz show ?thesis
        by (simp add: add_line_jitter_def Let_def r comp_def y0)
    next
      case False
      with hz show ?thesis
        by (simp add: add_line_jitter_def Let_def zeros_rows)
    qed
  qed
qed

lemma jitter_value_range:
  fixes s u :: real
  assumes "0 \<le> u" "u < 1" "0 < s"
  shows "- s \<le> s * (2 * u - 1) \<and> s * (2 * u - 1) < s"
proof -
  have "- 1 \<le> 2 * u - 1" "2 * u - 1 < 1" using assms by simp_all
  then have "s * (- 1) \<le> s * (2 * u - 1)" "s * (2 * u - 1) < s * 1"
    using assms(3) by (simp_all only: mult_le_cancel_left_pos mult_less_cancel_left_pos)
  then show ?thesis by simp
qed

text \<open>
  C5. For every shape \<open>(h, w)\<close> and strength, \<open>add_line_jitter\<close> uses one draw per line \<open>i\<close>
  and gives every pixel of that line the displacement \<open>strength * (2 * draw\<^sub>i - 1)\<close>: the
  horizontal flag fills the X channel from the first \<open>h\<close> draws and nothing else, the
  vertical flag fills the Y channel from the next \<open>h\<close> draws and nothing else; a scalar
  strength is used for both channels and a 2-tuple gives one strength per channel. With
  draws in \<open>[0, 1)\<close> and a positive strength every displacement lies in
  \<open>[-strength, strength)\<close>, and strength \<open>0\<close> gives the all-zero field.
\<close>

theorem add_line_jitter_per_line:
  "add_line_jitter (h, w) (Scalar s) hz vt g = add_line_jitter (h, w) (Tuple s s) hz vt g
   \<and> fst (add_line_jitter (h, w) (Tuple sx sy) hz vt g) =
       map (\<lambda>i. replicate w
             (if hz then sx * (2 * g i - 1) else 0,
              if vt then sy * (2 * g ((if hz then h else 0) + i) - 1) else 0)) [0..<h]
   \<and> snd (add_line_jitter (h, w) (Tuple sx sy) hz vt g) =
       (\<lambda>i. g ((if hz then h else 0) + ((if vt then h else 0) + i)))
   \<and> ((\<forall>i. 0 \<le> g i \<and> g i < 1) \<and> 0 < sx \<longrightarrow>
        (\<forall>v \<in> set (concat (chan0 (fst (add_line_jitter (h, w) (Tuple sx sy) hz vt g)))).
           - sx \<le> v \<and> v < sx))
   \<and> ((\<forall>i. 0 \<le> g i \<and> g i < 1) \<and> 0 < sy \<longrightarrow>
        (\<forall>v \<in> set (concat (chan1 (fst (add_line_jitter (h, w) (Tuple sx sy) hz vt g)))).
           - sy \<le> v \<and> v < sy))
   \<and> fst (add_line_jitter (h, w) (Scalar 0) hz vt g) = zeros h w"
proof -
  have a: "add_line_jitter (h, w) (Scalar s) hz vt g =
      add_line_jitter (h, w) (Tuple s s) hz vt g"
    by (simp add: add_line_jitter_def)
  have b: "fst (add_line_jitter (h, w) (Tuple sx sy) hz vt g) =
       map (\<lambda>i. replicate w
             (if hz then sx * (2 * g i - 1) else 0,
              if vt then sy * (2 * g ((if hz then h else 0) + i) - 1) else 0)) [0..<h]"
    by (simp add: add_line_jitter_Tuple)
  have c: "snd (add_line_jitter (h, w) (Tuple sx sy) hz vt g) =
       (\<lambda>i. g ((if hz then h else 0) + ((if vt then h else 0) + i)))"
    by (simp add: add_line_jitter_Tuple)
  have d: "(\<forall>i. 0 \<le> g i \<and> g i < 1) \<and> 0 < sx \<longrightarrow>
        (\<forall>v \<in> set (concat (chan0 (fst (add_line_jitter (h, w) (Tuple sx sy) hz vt g)))).
           - sx \<le> v \<and> v < sx)"
  proof (intro impI ballI)
    fix v
    assume h: "(\<forall>i. 0 \<le> g i \<and> g i < 1) \<and> 0 < sx"
      and v: "v \<in> set (concat (chan0 (fst (add_line_jitter (h, w) (Tuple sx sy) hz vt g))))"
    from v obtain i where "v = (if hz then sx * (2 * g i - 1) else 0)"
      unfolding b chan0_def by auto
    with h jitter_value_range [of "g i" sx] show "- sx \<le> v \<and> v < sx" by auto
  qed
  have e: "(\<forall>i. 0 \<le> g i \<and> g i < 1) \<and> 0 < sy \<longrightarrow>
        (\<forall>v \<in> set (concat (chan1 (fst (add_line_jitter (h, w) (Tuple sx sy) hz vt g)))).
           - sy \<le> v \<and> v < sy)"
  proof (intro impI ballI)
    fix v
    assume h: "(\<forall>i. 0 \<le> g i \<and> g i < 1) \<and> 0 < sy"
      and v: "v \<in> set (concat (chan1 (fst (add_line_jitter (h, w) (Tuple sx sy) hz vt g))))"
    from v obtain i where
      "v = (if vt then sy * (2 * g ((if hz then h else 0) + i) - 1) else 0)"
      unfolding b chan1_def by auto
    with h jitter_value_range [of "g ((if hz then h else 0) + i)" sy]
    show "- sy \<le> v \<and> v < sy" by auto
  qed
  have f: "fst (add_line_jitter (h, w) (Scalar 0) hz vt g) = zeros h w"
  proof -
    have "add_line_jitter (h, w) (Scalar 0) hz vt g = add_line_jitter (h, w) (Tuple 0 0) hz vt g"
      by (simp add: add_line_jitter_def)
    then show ?thesis by (simp add: add_line_jitter_Tuple zeros_rows)
  qed
  from a b c d e f show ?thesis by (intro conjI)
qed

lemma list_rng_unit_interval:
  assumes "list_all (\<lambda>u. 0 \<le> u \<and> u < 1) xs"
  shows "0 \<le> list_rng xs i \<and> list_rng xs i < 1"
  using assms by (simp add: list_rng_def list_all_length)

lemma upt_2: "[0..<2] = [0, 1]"
  by (simp add: upt_rec numeral_nat)

text \<open>
  A 2 by 2 shape, strengths 1 and 2, both flags, and the draws \<open>0, 1/2, 1/4, 3/4\<close>.
\<close>

theorem add_line_jitter_per_line_witness:
  "(\<forall>i. 0 \<le> list_rng [0, 1 / 2, 1 / 4, 3 / 4] i \<and> list_rng [0, 1 / 2, 1 / 4, 3 / 4] i < 1)
   \<and> (0::real) < 1 \<and> (0::real) < 2
   \<and> fst (add_line_jitter (2, 2) (Tuple 1 2) True True (list_rng [0, 1 / 2, 1 / 4, 3 / 4])) =
       [[(- 1, - 1), (- 1, - 1)], [(0, 1), (0, 1)]]
   \<and> list_all (\<lambda>v. - 1 \<le> v \<and> v < 1)
        (concat (chan0 (fst (add_line_jitter (2, 2) (Tuple 1 2) True True
           (list_rng [0, 1 / 2, 1 / 4, 3 / 4])))))
   \<and> list_all (\<lambda>v. - 2 \<le> v \<and> v < 2)
        (concat (chan1 (fst (add_line_jitter (2, 2) (Tuple 1 2) True True
           (list_rng [0, 1 / 2, 1 / 4, 3 / 4])))))"
proof -
  have g: "\<forall>i. 0 \<le> list_rng [0, 1 / 2, 1 / 4, 3 / 4] i \<and> list_rng [0, 1 / 2, 1 / 4, 3 / 4] i < 1"
    by (intro allI list_rng_unit_interval) simp
  note t = add_line_jitter_per_line [where h = 2 and w = 2 and sx = 1 and sy = 2
      and hz = True and vt = True and g = "list_rng [0, 1 / 2, 1 / 4, 3 / 4]"]
  from t have v: "fst (add_line_jitter (2, 2) (Tuple 1 2) True True
        (list_rng [0, 1 / 2, 1 / 4, 3 / 4])) = [[(- 1, - 1), (- 1, - 1)], [(0, 1), (0, 1)]]"
    by (simp add: upt_2 list_rng_def numeral_2_eq_2)
  from t g have b0: "\<forall>v \<in> set (concat (chan0 (fst (add_line_jitter (2, 2) (Tuple 1 2) True True
        (list_rng [0, 1 / 2, 1 / 4, 3 / 4]))))). - 1 \<le> v \<and> v < 1"
    by simp
  from t g have b1: "\<forall>v \<in> set (concat (chan1 (fst (add_line_jitter (2, 2) (Tuple 1 2) True True
        (list_rng [0, 1 / 2, 1 / 4, 3 / 4]))))). - 2 \<le> v \<and> v < 2"
    by simp
  from g v b0 b1 show ?thesis by (simp only: list_all_iff) simp
qed

lemma scaled_index_extremes:
  fixes a :: real
  assumes n: "0 < n"
  shows "0 \<le> a \<Longrightarrow> Max (set (map (\<lambda>k. a * real k) [0..<n])) = a * real (n - 1)"
    and "0 \<le> a \<Longrightarrow> Min (set (map (\<lambda>k. a * real k) [0..<n])) = 0"
    and "a \<le> 0 \<Longrightarrow> Max (set (map (\<lambda>k. a * real k) [0..<n])) = 0"
    and "a \<le> 0 \<Longrightarrow> Min (set (map (\<lambda>k. a * real k) [0..<n])) = a * real (n - 1)"
proof -
  let ?S = "set (map (\<lambda>k. a * real k) [0..<n])"
  have S: "?S = (\<lambda>k. a * real k) ` {0..<n}" by simp
  have z: "0 \<in> ?S" unfolding S using n by (intro image_eqI [where x = 0]) simp_all
  have l: "a * real (n - 1) \<in> ?S"
    unfolding S using n by (intro image_eqI [where x = "n - 1"]) simp_all
  {
    assume a: "0 \<le> a"
    have up: "y \<le> a * real (n - 1)" if "y \<in> ?S" for y
    proof -
      from that obtain k where k: "k < n" "y = a * real k" unfolding S by auto
      then have "real k \<le> real (n - 1)" by simp
      with a k show ?thesis by (simp add: mult_left_mono)
    qed
    have lo: "0 \<le> y" if "y \<in> ?S" for y
      using that a unfolding S by auto
    show "Max ?S = a * real (n - 1)" by (rule Max_eqI) (use up l in simp_all)
    show "Min ?S = 0" by (rule Min_eqI) (use lo z in simp_all)
  }
  {
    assume a: "a \<le> 0"
    have lo: "a * real (n - 1) \<le> y" if "y \<in> ?S" for y
    proof -
      from that obtain k where k: "k < n" "y = a * real k" unfolding S by auto
      then have "real k \<le> real (n - 1)" by simp
      with a k show ?thesis by (simp add: mult_left_mono_neg)
    qed
    have up: "y \<le> 0" if "y \<in> ?S" for y
      using that a unfolding S by (auto simp: mult_nonpos_nonneg)
    show "Max ?S = 0" by (rule Max_eqI) (use up z in simp_all)
    show "Min ?S = a * real (n - 1)" by (rule Min_eqI) (use lo l in simp_all)
  }
qed

lemma centre_offset_drift:
  fixes a :: real
  assumes n: "0 < n" and d: "concat d = map (\<lambda>k. a * real k) [0..<n]"
  shows "centre_offset d = a * real (n - 1)"
    and "arr_max d + arr_min d = a * real (n - 1)"
    and "\<bar>centre_offset d\<bar> = max \<bar>arr_max d\<bar> \<bar>arr_min d\<bar>"
    and "centre_offset d = arr_max d \<or> centre_offset d = arr_min d"
proof -
  define M where "M = a * real (n - 1)"
  have ext: "(arr_max d = M \<and> arr_min d = 0 \<and> 0 \<le> M) \<or> (arr_max d = 0 \<and> arr_min d = M \<and> M \<le> 0)"
  proof (cases "0 \<le> a")
    case True
    then have "0 \<le> M" by (simp add: M_def)
    with scaled_index_extremes(1,2) [OF n True] show ?thesis
      by (simp add: arr_max_def arr_min_def d M_def)
  next
    case False
    then have na: "a \<le> 0" by simp
    then have "M \<le> 0" by (simp add: M_def mult_nonpos_nonneg)
    with scaled_index_extremes(3,4) [OF n na] show ?thesis
      by (simp add: arr_max_def arr_min_def d M_def)
  qed
  from ext show "centre_offset d = a * real (n - 1)"
    unfolding M_def [symmetric] centre_offset_def by auto
  from ext show "arr_max d + arr_min d = a * real (n - 1)"
    unfolding M_def [symmetric] by auto
  from ext show "\<bar>centre_offset d\<bar> = max \<bar>arr_max d\<bar> \<bar>arr_min d\<bar>"
    unfolding centre_offset_def by auto
  show "centre_offset d = arr_max d \<or> centre_offset d = arr_min d"
    by (simp add: centre_offset_def)
qed

lemma arr_extremes_shift:
  assumes "concat d \<noteq> []"
  shows "arr_max (map (map (\<lambda>v. v - c)) d) = arr_max d - c"
    and "arr_min (map (map (\<lambda>v. v - c)) d) = arr_min d - c"
proof -
  have f: "concat (map (map (\<lambda>v. v - c)) d) = map (\<lambda>v. v - c) (concat d)"
    by (simp add: map_concat)
  have fin: "finite (set (concat d))" "set (concat d) \<noteq> {}" using assms by simp_all
  have "mono (\<lambda>v::real. v - c)" by (simp add: mono_def)
  from mono_Max_commute [OF this fin] show "arr_max (map (map (\<lambda>v. v - c)) d) = arr_max d - c"
    unfolding arr_max_def f by simp
  have "mono (\<lambda>v::real. v - c)" by (simp add: mono_def)
  from mono_Min_commute [OF this fin] show "arr_min (map (map (\<lambda>v. v - c)) d) = arr_min d - c"
    unfolding arr_min_def f by simp
qed

lemma chan_centre_shift:
  "chan0 (centre_shift p ox oy) = map (map (\<lambda>v. v - ox / 2)) (chan0 p)"
  "chan1 (centre_shift p ox oy) = map (map (\<lambda>v. v - oy / 2)) (chan1 p)"
  by (simp_all add: chan0_def chan1_def centre_shift_def comp_def case_prod_beta)

lemma concat_chan:
  "concat (chan0 p) = map fst (concat p)" "concat (chan1 p) = map snd (concat p)"
  by (simp_all add: chan0_def chan1_def map_concat)

lemma centred_channel:
  fixes a :: real
  assumes n: "0 < n" and d: "concat d = map (\<lambda>k. a * real k) [0..<n]"
  shows "arr_max (map (map (\<lambda>v. v - centre_offset d / 2)) d) +
         arr_min (map (map (\<lambda>v. v - centre_offset d / 2)) d) = 0"
proof -
  from n d have ne: "concat d \<noteq> []" by simp
  show ?thesis
    unfolding arr_extremes_shift [OF ne]
    using centre_offset_drift(1,2) [OF n d] by simp
qed

lemma probe_grid_unfold:
  assumes "axis_ranges self = Inr (xr, yr)"
    and "jitter_step self (length yr, length xr) (meshgrid xr yr) g = (p1, g1)"
  shows "probe_grid self g =
     (case drift_step self (length yr, length xr) (rotation_step self p1) of
        Inl e \<Rightarrow> Inl e
      | Inr p3 \<Rightarrow> Inr (p3, g1))"
  using assms by (simp add: probe_grid_def Let_def)

lemma steps_without_drift:
  "axis_ranges (self\<lparr>drift_speed := 0\<rparr>) = axis_ranges self"
  "jitter_step (self\<lparr>drift_speed := 0\<rparr>) = jitter_step self"
  "rotation_step (self\<lparr>drift_speed := 0\<rparr>) = rotation_step self"
  "drift_step (self\<lparr>drift_speed := 0\<rparr>) sh p = Inr p"
proof -
  show "axis_ranges (self\<lparr>drift_speed := 0\<rparr>) = axis_ranges self"
    by (simp add: axis_ranges_def Let_def cong: sum.case_cong)
  show "jitter_step (self\<lparr>drift_speed := 0\<rparr>) = jitter_step self"
    by (simp add: jitter_step_def fun_eq_iff)
  show "rotation_step (self\<lparr>drift_speed := 0\<rparr>) = rotation_step self"
    by (simp add: rotation_step_def fun_eq_iff)
  show "drift_step (self\<lparr>drift_speed := 0\<rparr>) sh p = Inr p"
    by (simp add: drift_step_def)
qed

lemma add_drift_flat:
  "concat (add_drift (n0, n1) (vx, vy) s) =
     map (\<lambda>k. (s / real (n0 * n1) * (- vx) * real k, s / real (n0 * n1) * (- vy) * real k))
       [0..<n0 * n1]"
  unfolding add_drift_rows
  by (rule concat_index_rows [where f = "\<lambda>k. (s / real (n0 * n1) * (- vx) * real k,
        s / real (n0 * n1) * (- vy) * real k)"])

text \<open>
  C7. When \<open>centre_drift\<close> is set and the drift speed is not zero, a probe grid that the
  builder returns is the grid it builds with the drift off, plus the drift field, minus
  half an offset per axis at every pixel. The offset of an axis is the maximum or the
  minimum of the drift of that axis, the one of larger magnitude, and the drift minus
  half the offset has a maximum and a minimum that sum to zero on each axis.
\<close>

theorem centre_drift_symmetric:
  assumes ok: "create_probe_positions self g = Inr (self', g')"
    and cd: "centre_drift self" and ds: "drift_speed self \<noteq> 0"
  shows "\<exists>xrange yrange pre.
     axis_ranges self = Inr (xrange, yrange) \<and>
     create_probe_positions (self\<lparr>drift_speed := 0\<rparr>) g =
       Inr (self\<lparr>drift_speed := 0, probe_positions := pre\<rparr>, g') \<and>
     (let drift = add_drift (length yrange, length xrange) (drift_vector self) (drift_speed self);
          offsetx = centre_offset (chan0 drift);
          offsety = centre_offset (chan1 drift);
          centred = centre_shift drift offsetx offsety
      in probe_positions self' = centre_shift (grid_add pre drift) offsetx offsety
         \<and> (offsetx = arr_max (chan0 drift) \<or> offsetx = arr_min (chan0 drift))
         \<and> \<bar>offsetx\<bar> = max \<bar>arr_max (chan0 drift)\<bar> \<bar>arr_min (chan0 drift)\<bar>
         \<and> (offsety = arr_max (chan1 drift) \<or> offsety = arr_min (chan1 drift))
         \<and> \<bar>offsety\<bar> = max \<bar>arr_max (chan1 drift)\<bar> \<bar>arr_min (chan1 drift)\<bar>
         \<and> arr_max (chan0 centred) + arr_min (chan0 centred) = 0
         \<and> arr_max (chan1 centred) + arr_min (chan1 centred) = 0)"
proof -
  from ok obtain p where pg: "probe_grid self g = Inr (p, g')"
    and self': "self' = self\<lparr>probe_positions := p\<rparr>"
    unfolding create_probe_positions_def by (auto split: sum.splits)
  from pg obtain xr yr where ax: "axis_ranges self = Inr (xr, yr)"
    unfolding probe_grid_def by (auto split: sum.splits)
  obtain p1 g1 where j: "jitter_step self (length yr, length xr) (meshgrid xr yr) g = (p1, g1)"
    by (cases "jitter_step self (length yr, length xr) (meshgrid xr yr) g") auto
  define p2 where "p2 = rotation_step self p1"
  obtain vx vy where v: "drift_vector self = (vx, vy)" by (cases "drift_vector self") auto
  define n where "n = length yr * length xr"
  define drift where "drift = add_drift (length yr, length xr) (vx, vy) (drift_speed self)"
  define ox where "ox = centre_offset (chan0 drift)"
  define oy where "oy = centre_offset (chan1 drift)"
  have dstep: "drift_step self (length yr, length xr) p2 =
      (if concat drift = [] then Inl ValueError
       else Inr (centre_shift (grid_add p2 drift) ox oy))"
    using cd ds by (simp add: drift_step_def Let_def v drift_def ox_def oy_def)
  from pg have "(case drift_step self (length yr, length xr) p2 of
        Inl e \<Rightarrow> Inl e | Inr p3 \<Rightarrow> Inr (p3, g1)) = Inr (p, g')"
    unfolding probe_grid_unfold [OF ax j] p2_def .
  with dstep have ne: "concat drift \<noteq> []"
    and p: "p = centre_shift (grid_add p2 drift) ox oy" and g': "g' = g1"
    by (auto split: if_splits)
  from ne have n: "0 < n"
    unfolding drift_def add_drift_flat n_def by simp
  have pre: "create_probe_positions (self\<lparr>drift_speed := 0\<rparr>) g =
       Inr (self\<lparr>drift_speed := 0, probe_positions := p2\<rparr>, g')"
  proof -
    have "probe_grid (self\<lparr>drift_speed := 0\<rparr>) g = Inr (p2, g1)"
      using ax j
      by (subst probe_grid_unfold [where xr = xr and yr = yr and ?p1.0 = p1 and ?g1.0 = g1])
        (simp_all add: steps_without_drift p2_def)
    then show ?thesis by (simp add: create_probe_positions_def g')
  qed
  have f0: "concat (chan0 drift) =
      map (\<lambda>k. drift_speed self / real n * (- vx) * real k) [0..<n]"
    unfolding drift_def n_def by (rule add_drift_flat0)
  have f1: "concat (chan1 drift) =
      map (\<lambda>k. drift_speed self / real n * (- vy) * real k) [0..<n]"
    unfolding drift_def n_def by (rule add_drift_flat1)
  have x: "(ox = arr_max (chan0 drift) \<or> ox = arr_min (chan0 drift))
      \<and> \<bar>ox\<bar> = max \<bar>arr_max (chan0 drift)\<bar> \<bar>arr_min (chan0 drift)\<bar>
      \<and> arr_max (chan0 (centre_shift drift ox oy)) + arr_min (chan0 (centre_shift drift ox oy)) = 0"
    unfolding chan_centre_shift ox_def
    using centre_offset_drift(3,4) [OF n f0] centred_channel [OF n f0] by simp
  have y: "(oy = arr_max (chan1 drift) \<or> oy = arr_min (chan1 drift))
      \<and> \<bar>oy\<bar> = max \<bar>arr_max (chan1 drift)\<bar> \<bar>arr_min (chan1 drift)\<bar>
      \<and> arr_max (chan1 (centre_shift drift ox oy)) + arr_min (chan1 (centre_shift drift ox oy)) = 0"
    unfolding chan_centre_shift oy_def
    using centre_offset_drift(3,4) [OF n f1] centred_channel [OF n f1] by simp
  have "axis_ranges self = Inr (xr, yr) \<and>
     create_probe_positions (self\<lparr>drift_speed := 0\<rparr>) g =
       Inr (self\<lparr>drift_speed := 0, probe_positions := p2\<rparr>, g') \<and>
     (let drift = add_drift (length yr, length xr) (drift_vector self) (drift_speed self);
          offsetx = centre_offset (chan0 drift);
          offsety = centre_offset (chan1 drift);
          centred = centre_shift drift offsetx offsety
      in probe_positions self' = centre_shift (grid_add p2 drift) offsetx offsety
         \<and> (offsetx = arr_max (chan0 drift) \<or> offsetx = arr_min (chan0 drift))
         \<and> \<bar>offsetx\<bar> = max \<bar>arr_max (chan0 drift)\<bar> \<bar>arr_min (chan0 drift)\<bar>
         \<and> (offsety = arr_max (chan1 drift) \<or> offsety = arr_min (chan1 drift))
         \<and> \<bar>offsety\<bar> = max \<bar>arr_max (chan1 drift)\<bar> \<bar>arr_min (chan1 drift)\<bar>
         \<and> arr_max (chan0 centred) + arr_min (chan0 centred) = 0
         \<and> arr_max (chan1 centred) + arr_min (chan1 centred) = 0)"
    unfolding Let_def v drift_def [symmetric] ox_def [symmetric] oy_def [symmetric]
    using ax pre x y by (simp add: self' p)
  then show ?thesis by blast
qed

lemma drift_model_ranges: "axis_ranges drift_model = Inr ([- 1, 0, 1], [- 1, 0, 1])"
  by (simp add: drift_model_def one_atom_args_def default_args_def init_fields_def
        axis_ranges_def arange_def upt_3 Let_def)

lemma drift_model_fields:
  "centre_drift drift_model" "drift_speed drift_model = 9" "drift_vector drift_model = (1, 0)"
  "jitter_strength drift_model = Scalar 0" "scan_rotation drift_model = 0"
  by (simp_all add: drift_model_def one_atom_args_def default_args_def init_fields_def)

lemma drift_3_3:
  "add_drift (3, 3) (1, 0) 9 =
     [[(0, 0), (- 1, 0), (- 2, 0)], [(- 3, 0), (- 4, 0), (- 5, 0)],
      [(- 6, 0), (- 7, 0), (- 8, 0)]]"
  by (simp add: add_drift_def upt_3)

lemma drift_3_3_offsets:
  "centre_offset (chan0 (add_drift (3, 3) (1, 0) 9)) = - 8"
  "centre_offset (chan1 (add_drift (3, 3) (1, 0) 9)) = 0"
  by (simp_all add: drift_3_3 centre_offset_def arr_max_def arr_min_def chan0_def chan1_def)

lemma length_3: "length [a, b, c] = 3"
  by simp

lemma drift_model_grid:
  "create_probe_positions drift_model (list_rng []) =
     Inr (drift_model\<lparr>probe_positions :=
            [[(3, - 1), (3, - 1), (3, - 1)], [(0, 0), (0, 0), (0, 0)],
             [(- 3, 1), (- 3, 1), (- 3, 1)]]\<rparr>, list_rng [])"
proof -
  have j: "jitter_step drift_model sh p (list_rng []) = (p, list_rng [])" for sh p
    by (simp add: jitter_step_def drift_model_fields strength_truthy_def)
  have r: "rotation_step drift_model p = p" for p
    by (simp add: rotation_step_def drift_model_fields)
  have d: "drift_step drift_model (3, 3) p =
      Inr (centre_shift (grid_add p (add_drift (3, 3) (1, 0) 9)) (- 8) 0)" for p
    by (simp add: drift_step_def drift_model_fields Let_def drift_3_3_offsets)
      (simp add: drift_3_3)
  show ?thesis
    unfolding create_probe_positions_def probe_grid_def drift_model_ranges
      sum.case prod.case Let_def j r length_3 d
    by (simp add: meshgrid_def drift_3_3 grid_add_def centre_shift_def)
qed

lemma drift_model_grid_no_drift:
  "create_probe_positions (drift_model\<lparr>drift_speed := 0\<rparr>) (list_rng []) =
     Inr (drift_model\<lparr>drift_speed := 0, probe_positions :=
            [[(- 1, - 1), (0, - 1), (1, - 1)], [(- 1, 0), (0, 0), (1, 0)],
             [(- 1, 1), (0, 1), (1, 1)]]\<rparr>, list_rng [])"
  unfolding create_probe_positions_def probe_grid_def steps_without_drift drift_model_ranges
  by (simp add: drift_model_fields jitter_step_def rotation_step_def
        strength_truthy_def meshgrid_def Let_def)

text \<open>The drift example satisfies the hypotheses of C7.\<close>

theorem centre_drift_symmetric_witness:
  "create_probe_positions drift_model (list_rng []) =
     Inr (drift_model\<lparr>probe_positions :=
            [[(3, - 1), (3, - 1), (3, - 1)], [(0, 0), (0, 0), (0, 0)],
             [(- 3, 1), (- 3, 1), (- 3, 1)]]\<rparr>, list_rng [])
   \<and> centre_drift drift_model \<and> drift_speed drift_model \<noteq> 0
   \<and> [[(3, - 1), (3, - 1), (3, - 1)], [(0, 0), (0, 0), (0, 0)],
        [(- 3, 1), (- 3, 1), (- 3, 1)]] =
       centre_shift
         (grid_add [[(- 1, - 1), (0, - 1), (1, - 1)], [(- 1, 0), (0, 0), (1, 0)],
                    [(- 1, 1), (0, 1), (1, 1)]] (add_drift (3, 3) (1, 0) 9))
         (centre_offset (chan0 (add_drift (3, 3) (1, 0) 9)))
         (centre_offset (chan1 (add_drift (3, 3) (1, 0) 9)))
   \<and> arr_max (chan0 (centre_shift (add_drift (3, 3) (1, 0) 9)
         (centre_offset (chan0 (add_drift (3, 3) (1, 0) 9)))
         (centre_offset (chan1 (add_drift (3, 3) (1, 0) 9))))) +
       arr_min (chan0 (centre_shift (add_drift (3, 3) (1, 0) 9)
         (centre_offset (chan0 (add_drift (3, 3) (1, 0) 9)))
         (centre_offset (chan1 (add_drift (3, 3) (1, 0) 9))))) = 0"
proof -
  have ds: "drift_speed drift_model \<noteq> 0" by (simp add: drift_model_fields)
  let ?P = "[[(3, - 1), (3, - 1), (3, - 1)], [(0, 0), (0, 0), (0, 0)],
             [(- 3, 1), (- 3, 1), (- 3, 1)]] :: grid"
  from centre_drift_symmetric [OF drift_model_grid drift_model_fields(1) ds]
  obtain xr yr pre where ax: "axis_ranges drift_model = Inr (xr, yr)"
    and pre: "create_probe_positions (drift_model\<lparr>drift_speed := 0\<rparr>) (list_rng []) =
       Inr (drift_model\<lparr>drift_speed := 0, probe_positions := pre\<rparr>, list_rng [])"
    and r: "(let drift = add_drift (length yr, length xr) (drift_vector drift_model)
                 (drift_speed drift_model);
          offsetx = centre_offset (chan0 drift);
          offsety = centre_offset (chan1 drift);
          centred = centre_shift drift offsetx offsety
      in probe_positions (drift_model\<lparr>probe_positions := ?P\<rparr>) =
           centre_shift (grid_add pre drift) offsetx offsety
         \<and> (offsetx = arr_max (chan0 drift) \<or> offsetx = arr_min (chan0 drift))
         \<and> \<bar>offsetx\<bar> = max \<bar>arr_max (chan0 drift)\<bar> \<bar>arr_min (chan0 drift)\<bar>
         \<and> (offsety = arr_max (chan1 drift) \<or> offsety = arr_min (chan1 drift))
         \<and> \<bar>offsety\<bar> = max \<bar>arr_max (chan1 drift)\<bar> \<bar>arr_min (chan1 drift)\<bar>
         \<and> arr_max (chan0 centred) + arr_min (chan0 centred) = 0
         \<and> arr_max (chan1 centred) + arr_min (chan1 centred) = 0)"
    by blast
  from ax have xr: "xr = [- 1, 0, 1]" and yr: "yr = [- 1, 0, 1]"
    unfolding drift_model_ranges by auto
  from pre have "probe_positions (drift_model\<lparr>drift_speed := 0, probe_positions :=
            [[(- 1, - 1), (0, - 1), (1, - 1)], [(- 1, 0), (0, 0), (1, 0)],
             [(- 1, 1), (0, 1), (1, 1)]]\<rparr>) =
      probe_positions (drift_model\<lparr>drift_speed := 0, probe_positions := pre\<rparr>)"
    unfolding drift_model_grid_no_drift by (intro arg_cong [where f = probe_positions]) simp
  then have p: "pre = [[(- 1, - 1), (0, - 1), (1, - 1)], [(- 1, 0), (0, 0), (1, 0)],
             [(- 1, 1), (0, 1), (1, 1)]]"
    by simp
  from r have "?P = centre_shift (grid_add pre (add_drift (3, 3) (1, 0) 9))
         (centre_offset (chan0 (add_drift (3, 3) (1, 0) 9)))
         (centre_offset (chan1 (add_drift (3, 3) (1, 0) 9)))
     \<and> arr_max (chan0 (centre_shift (add_drift (3, 3) (1, 0) 9)
         (centre_offset (chan0 (add_drift (3, 3) (1, 0) 9)))
         (centre_offset (chan1 (add_drift (3, 3) (1, 0) 9))))) +
       arr_min (chan0 (centre_shift (add_drift (3, 3) (1, 0) 9)
         (centre_offset (chan0 (add_drift (3, 3) (1, 0) 9)))
         (centre_offset (chan1 (add_drift (3, 3) (1, 0) 9))))) = 0"
    unfolding xr yr length_3 drift_model_fields Let_def by simp
  with drift_model_grid drift_model_fields(1) ds show ?thesis
    unfolding p by (intro conjI) simp_all
qed










lemma add_drift_nonempty:
  assumes "0 < n0" "0 < n1"
  shows "concat (add_drift (n0, n1) v s) \<noteq> []"
proof -
  obtain vx vy where v: "v = (vx, vy)" by (cases v) auto
  from assms show ?thesis unfolding v add_drift_flat by simp
qed





lemma generate_lengths: "map length (generate m) = map length (probe_positions m)"
  unfolding generate_pixels by (simp add: comp_def)

lemma grid_add_lengths:
  assumes "map length p = replicate h w" "map length q = replicate h w"
  shows "map length (grid_add p q) = replicate h w"
  using assms
proof (induction h arbitrary: p q)
  case 0
  then show ?case by (simp add: grid_add_def)
next
  case (Suc h)
  from Suc.prems obtain r p' where p: "p = r # p'" by (cases p) auto
  from Suc.prems obtain r' q' where q: "q = r' # q'" by (cases q) auto
  from Suc.prems have "map length (grid_add p' q') = replicate h w"
    unfolding p q by (intro Suc.IH) simp_all
  with Suc.prems show ?case unfolding p q by (simp add: grid_add_def)
qed

lemma meshgrid_lengths:
  "map length (meshgrid xrange yrange) = replicate (length yrange) (length xrange)"
  by (simp add: meshgrid_def comp_def map_replicate_const)

lemma add_line_jitter_lengths:
  "map length (fst (add_line_jitter (h, w) st hz vt g)) = replicate h w"
proof (cases st)
  case (Scalar s)
  have "add_line_jitter (h, w) (Scalar s) hz vt g = add_line_jitter (h, w) (Tuple s s) hz vt g"
    by (simp add: add_line_jitter_def)
  then show ?thesis
    unfolding Scalar by (simp add: add_line_jitter_Tuple comp_def map_replicate_const)
next
  case (Tuple sx sy)
  then show ?thesis by (simp add: add_line_jitter_Tuple comp_def map_replicate_const)
qed

lemma jitter_step_lengths:
  assumes "map length p = replicate h w"
  shows "map length (fst (jitter_step self (h, w) p g)) = replicate h w"
  using assms grid_add_lengths [OF assms add_line_jitter_lengths]
  by (simp add: jitter_step_def case_prod_beta)

lemma rotation_step_lengths: "map length (rotation_step self p) = map length p"
  by (simp add: rotation_step_def rotate_about_mean_def Let_def comp_def split: prod.splits)

lemma drift_step_lengths:
  assumes "map length p = replicate h w" "drift_step self (h, w) p = Inr p'"
  shows "map length p' = replicate h w"
proof -
  obtain vx vy where v: "drift_vector self = (vx, vy)" by (cases "drift_vector self") auto
  have d: "map length (grid_add p (add_drift (h, w) (drift_vector self) (drift_speed self))) =
      replicate h w"
    unfolding v by (rule grid_add_lengths [OF assms(1) add_drift_lengths])
  have c: "map length (centre_shift q ox oy) = map length q" for q ox oy
    by (simp add: centre_shift_def comp_def)
  from assms(2) assms(1) d show ?thesis
    by (auto simp: drift_step_def Let_def c split: if_splits)
qed

lemma probe_grid_lengths:
  assumes "probe_grid self g = Inr (p, g')"
  shows "\<exists>xr yr. axis_ranges self = Inr (xr, yr) \<and>
           map length p = replicate (length yr) (length xr)"
proof -
  from assms obtain xr yr where ax: "axis_ranges self = Inr (xr, yr)"
    unfolding probe_grid_def by (auto split: sum.splits)
  obtain p1 g1 where j: "jitter_step self (length yr, length xr) (meshgrid xr yr) g = (p1, g1)"
    by (cases "jitter_step self (length yr, length xr) (meshgrid xr yr) g") auto
  from jitter_step_lengths [OF meshgrid_lengths, where self = self and xrange1 = xr
      and yrange1 = yr and g = g] j
  have l1: "map length p1 = replicate (length yr) (length xr)" by simp
  then have l2: "map length (rotation_step self p1) = replicate (length yr) (length xr)"
    by (simp add: rotation_step_lengths)
  from assms have "drift_step self (length yr, length xr) (rotation_step self p1) = Inr p"
    unfolding probe_grid_unfold [OF ax j] by (auto split: sum.splits)
  from drift_step_lengths [OF l2 this] ax show ?thesis by blast
qed

lemma trim_square_lengths:
  assumes "map length img = replicate h w"
  shows "map length (trim_square img) = replicate (min h w) (min h w)"
    and "min (fst (shape img)) (snd (shape img)) = min h w"
proof -
  from assms have len: "length img = h"
    by (metis length_map length_replicate)
  have rows: "length r = w" if "r \<in> set img" for r
  proof -
    from that have "length r \<in> set (map length img)" by simp
    then show ?thesis unfolding assms by simp
  qed
  show side: "min (fst (shape img)) (snd (shape img)) = min h w"
  proof (cases img)
    case Nil
    with len show ?thesis by (simp add: shape_def)
  next
    case (Cons r rs)
    with rows [of r] len show ?thesis by (simp add: shape_def)
  qed
  have "map length (map (take (min h w)) (take (min h w) img)) =
      replicate (min h w) (min h w)"
  proof (rule nth_equalityI)
    show "length (map length (map (take (min h w)) (take (min h w) img))) =
        length (replicate (min h w) (min h w))"
      using len by simp
  next
    fix i
    assume "i < length (map length (map (take (min h w)) (take (min h w) img)))"
    then have i: "i < min h w" "i < length img" using len by simp_all
    then have "img ! i \<in> set img" by simp
    from rows [OF this] i
    show "map length (map (take (min h w)) (take (min h w) img)) ! i =
        replicate (min h w) (min h w) ! i"
      by simp
  qed
  then show "map length (trim_square img) = replicate (min h w) (min h w)"
    unfolding trim_square_def Let_def side .
qed

lemma arange_nonempty:
  assumes "start < stop" "0 < step"
  shows "\<exists>xs. arange start stop step = Inr xs \<and> xs \<noteq> []"
proof -
  from assms have "0 < (stop - start) / step" by simp
  then have "0 < \<lceil>(stop - start) / step\<rceil>" by (simp add: less_ceiling_iff)
  then have "0 < nat \<lceil>(stop - start) / step\<rceil>" by simp
  with assms(2) show ?thesis by (simp add: arange_def)
qed

lemma axis_ranges_nonempty:
  assumes ne: "atom_positions self \<noteq> []" and m: "0 < margin self" and px: "0 < pixel_size self"
  shows "\<exists>xr yr. axis_ranges self = Inr (xr, yr) \<and> xr \<noteq> [] \<and> yr \<noteq> []"
proof -
  define xlow0 where "xlow0 = Min (set (map fst (atom_positions self))) - margin self"
  define ylow0 where "ylow0 = Min (set (map snd (atom_positions self))) - margin self"
  define xhigh0 where "xhigh0 = Max (set (map fst (atom_positions self))) + margin self"
  define yhigh0 where "yhigh0 = Max (set (map snd (atom_positions self))) + margin self"
  define scale where "scale = (xhigh0 - xlow0) / 100"
  define xlow where "xlow = (if square self then min xlow0 ylow0 else xlow0)"
  define ylow where "ylow = (if square self then min xlow0 ylow0 else ylow0)"
  define xhigh where "xhigh = (if square self then max xhigh0 yhigh0 else xhigh0)"
  define yhigh where "yhigh = (if square self then max xhigh0 yhigh0 else yhigh0)"
  have fx: "Min (set (map fst (atom_positions self))) \<le> Max (set (map fst (atom_positions self)))"
    using ne by (intro Min.coboundedI Max_in) simp_all
  have fy: "Min (set (map snd (atom_positions self))) \<le> Max (set (map snd (atom_positions self)))"
    using ne by (intro Min.coboundedI Max_in) simp_all
  from fx m have x0: "xlow0 < xhigh0" by (simp add: xlow0_def xhigh0_def)
  from fy m have y0: "ylow0 < yhigh0" by (simp add: ylow0_def yhigh0_def)
  from x0 have sc: "0 < scale" by (simp add: scale_def)
  from x0 y0 sc have "xlow < xhigh + scale" "ylow < yhigh + scale"
    by (auto simp: xlow_def xhigh_def ylow_def yhigh_def min_def max_def)
  from arange_nonempty [OF this(1) px] arange_nonempty [OF this(2) px]
  obtain xr yr where "arange xlow (xhigh + scale) (pixel_size self) = Inr xr" "xr \<noteq> []"
    "arange ylow (yhigh + scale) (pixel_size self) = Inr yr" "yr \<noteq> []" by blast
  then have r: "(case arange xlow (xhigh + scale) (pixel_size self) of
       Inl e \<Rightarrow> Inl e
     | Inr xrange \<Rightarrow>
        (case arange ylow (yhigh + scale) (pixel_size self) of
           Inl e \<Rightarrow> Inl e
         | Inr yrange \<Rightarrow> Inr (xrange, yrange))) = Inr (xr, yr)"
    and nonempty: "xr \<noteq> []" "yr \<noteq> []" by simp_all
  have "axis_ranges self = Inr (xr, yr)"
    unfolding axis_ranges_def Let_def xlow0_def [symmetric] ylow0_def [symmetric]
      xhigh0_def [symmetric] yhigh0_def [symmetric] scale_def [symmetric]
      xlow_def [symmetric] ylow_def [symmetric] xhigh_def [symmetric] yhigh_def [symmetric]
    using ne r by (simp only: if_False)
  with nonempty show ?thesis by blast
qed

lemma drift_step_returns:
  assumes "0 < h" "0 < w"
  shows "\<not> isl (drift_step self (h, w) p)"
  using add_drift_nonempty [OF assms, of "drift_vector self" "drift_speed self"]
  unfolding drift_step_def Let_def by (simp only: if_False sum.disc split: if_splits) simp

lemma probe_grid_returns:
  assumes "axis_ranges self = Inr (xr, yr)" "xr \<noteq> []" "yr \<noteq> []"
  shows "\<not> isl (probe_grid self g)"
proof -
  obtain p1 g1 where j: "jitter_step self (length yr, length xr) (meshgrid xr yr) g = (p1, g1)"
    by (cases "jitter_step self (length yr, length xr) (meshgrid xr yr) g") auto
  from assms have "\<not> isl (drift_step self (length yr, length xr) (rotation_step self p1))"
    by (intro drift_step_returns) simp_all
  then show ?thesis
    unfolding probe_grid_unfold [OF assms(1) j] by (auto split: sum.splits)
qed

lemma axis_ranges_fields:
  assumes "atom_positions self = atom_positions self'" "margin self = margin self'"
    "square self = square self'" "pixel_size self = pixel_size self'"
  shows "axis_ranges self = axis_ranges self'"
  unfolding axis_ranges_def assms ..

lemma series_model_fields:
  "atom_positions (init_fields (series_model_args sa atoms dv a) ps ns) = ps"
  "margin (init_fields (series_model_args sa atoms dv a) ps ns) = sa_vacuum sa"
  "pixel_size (init_fields (series_model_args sa atoms dv a) ps ns) = sa_pixel_size sa"
  "square (init_fields (series_model_args sa atoms dv a) ps ns) = arg_square (sa_kwargs sa)"
  "drift_vector (init_fields (series_model_args sa atoms dv a) ps ns) = dv"
  "scan_rotation (init_fields (series_model_args sa atoms dv a) ps ns) = a"
  by (simp_all add: init_fields_def series_model_args_def)

lemma series_axis_ranges:
  "axis_ranges (init_fields (series_model_args sa atoms dv a) ps ns) =
   axis_ranges (init_fields (series_model_args sa atoms dv' a') ps ns)"
  by (rule axis_ranges_fields) (simp_all add: series_model_fields)

lemma series_init:
  assumes "atoms \<noteq> []"
  shows "ImageModel_init (series_model_args sa atoms dv a) g =
     (case probe_grid (init_fields (series_model_args sa atoms dv a)
                         (map (\<lambda>((x, y, z), n). (x, y)) atoms) (map snd atoms)) g of
        Inl e \<Rightarrow> Inl e
      | Inr (p, g') \<Rightarrow>
          Inr (create_parameters
                 ((init_fields (series_model_args sa atoms dv a)
                     (map (\<lambda>((x, y, z), n). (x, y)) atoms) (map snd atoms))
                  \<lparr>probe_positions := p\<rparr>), g'))"
proof -
  obtain a0 as where at: "atoms = a0 # as" using assms by (cases atoms) auto
  have s: "arg_atoms (series_model_args sa atoms dv a) = Some (a0 # as)"
    and f: "\<not> arg_fast (series_model_args sa atoms dv a)"
    by (simp_all add: series_model_args_def at)
  show ?thesis
    unfolding ImageModel_init_def select_atoms_Some [OF s] create_probe_positions_def Let_def
    using f by (simp add: at split: sum.splits)
qed

lemma series_image_facts:
  assumes ne: "atoms \<noteq> []"
    and init: "ImageModel_init (series_model_args sa atoms dv a) gi = Inr (m, gi')"
  shows "drift_vector m = dv" "scan_rotation m = a"
    "\<exists>xr yr. axis_ranges (init_fields (series_model_args sa atoms dv 0)
                 (map (\<lambda>((x, y, z), n). (x, y)) atoms) (map snd atoms)) = Inr (xr, yr) \<and>
             map length (generate m) = replicate (length yr) (length xr)"
proof -
  let ?M = "init_fields (series_model_args sa atoms dv a)
              (map (\<lambda>((x, y, z), n). (x, y)) atoms) (map snd atoms)"
  from init obtain p where pg: "probe_grid ?M gi = Inr (p, gi')"
    and m: "m = create_parameters (?M\<lparr>probe_positions := p\<rparr>)"
    unfolding series_init [OF ne] by (auto split: sum.splits)
  show "drift_vector m = dv" "scan_rotation m = a"
    by (simp_all add: m create_parameters_def Let_def series_model_fields)
  have pp: "probe_positions m = p" by (simp add: m create_parameters_def Let_def)
  from probe_grid_lengths [OF pg] obtain xr yr where
    "axis_ranges ?M = Inr (xr, yr)" "map length p = replicate (length yr) (length xr)"
    by blast
  then show "\<exists>xr yr. axis_ranges (init_fields (series_model_args sa atoms dv 0)
                 (map (\<lambda>((x, y, z), n). (x, y)) atoms) (map snd atoms)) = Inr (xr, yr) \<and>
             map length (generate m) = replicate (length yr) (length xr)"
    unfolding generate_lengths pp
    using series_axis_ranges [of sa atoms dv 0 _ _ dv a] by auto
qed

lemma series_loop_images:
  assumes "series_loop sa atoms dv angles g = Inr (images, g')"
  shows "list_all2 (\<lambda>a img. \<exists>m gi gi'.
            ImageModel_init (series_model_args sa atoms dv a) gi = Inr (m, gi') \<and>
            img = trim_square (generate m)) angles images"
  using assms
proof (induction angles arbitrary: images g g')
  case Nil
  then show ?case by simp
next
  case (Cons a angles)
  from Cons.prems obtain m g1 rest g2 where
    i: "ImageModel_init (series_model_args sa atoms dv a) g = Inr (m, g1)"
    and l: "series_loop sa atoms dv angles g1 = Inr (rest, g2)"
    and im: "images = trim_square (generate m) # rest"
    by (auto split: sum.splits)
  from Cons.IH [OF l] i show ?case unfolding im by auto
qed

lemma series_loop_returns:
  assumes ne: "atoms \<noteq> []"
    and ax: "axis_ranges (init_fields (series_model_args sa atoms dv 0)
               (map (\<lambda>((x, y, z), n). (x, y)) atoms) (map snd atoms)) = Inr (xr, yr)"
    and nonempty: "xr \<noteq> []" "yr \<noteq> []"
  shows "\<not> isl (series_loop sa atoms dv angles g)"
proof (induction angles arbitrary: g)
  case Nil
  show ?case by simp
next
  case (Cons a angles)
  let ?M = "init_fields (series_model_args sa atoms dv a)
              (map (\<lambda>((x, y, z), n). (x, y)) atoms) (map snd atoms)"
  have "axis_ranges ?M = Inr (xr, yr)"
    using ax series_axis_ranges [of sa atoms dv a _ _ dv 0] by simp
  from probe_grid_returns [OF this nonempty, of g]
  obtain p g1 where "probe_grid ?M g = Inr (p, g1)"
    by (cases "probe_grid ?M g") auto
  then obtain m where i: "ImageModel_init (series_model_args sa atoms dv a) g = Inr (m, g1)"
    unfolding series_init [OF ne] by simp
  from Cons.IH [of g1] obtain rest g2 where
    "series_loop sa atoms dv angles g1 = Inr (rest, g2)"
    by (cases "series_loop sa atoms dv angles g1") auto
  with i show ?case by simp
qed

lemma shape_of_lengths:
  assumes "map length img = replicate h w"
  shows "shape img = (h, if h = 0 then 0 else w)"
proof -
  from assms have len: "length img = h" by (metis length_map length_replicate)
  show ?thesis
  proof (cases img)
    case Nil
    with len show ?thesis by (simp add: shape_def)
  next
    case (Cons r rs)
    with assms len show ?thesis by (cases h) (auto simp: shape_def)
  qed
qed

lemma series_images_square:
  assumes ne: "atoms \<noteq> []"
    and loop: "series_loop sa atoms dv angles g = Inr (images, g')"
  shows "\<exists>side. list_all2 (\<lambda>a img. \<exists>m gi gi'.
            ImageModel_init (series_model_args sa atoms dv a) gi = Inr (m, gi') \<and>
            scan_rotation m = a \<and> drift_vector m = dv \<and>
            img = trim_square (generate m) \<and>
            min (fst (shape (generate m))) (snd (shape (generate m))) = side \<and>
            map length img = replicate side side) angles images"
proof -
  let ?M0 = "init_fields (series_model_args sa atoms dv 0)
               (map (\<lambda>((x, y, z), n). (x, y)) atoms) (map snd atoms)"
  define side where
    "side = (case axis_ranges ?M0 of Inl e \<Rightarrow> 0 | Inr (xr, yr) \<Rightarrow> min (length yr) (length xr))"
  have step: "\<exists>m gi gi'.
            ImageModel_init (series_model_args sa atoms dv a) gi = Inr (m, gi') \<and>
            scan_rotation m = a \<and> drift_vector m = dv \<and>
            img = trim_square (generate m) \<and>
            min (fst (shape (generate m))) (snd (shape (generate m))) = side \<and>
            map length img = replicate side side"
    if "\<exists>m gi gi'. ImageModel_init (series_model_args sa atoms dv a) gi = Inr (m, gi') \<and>
            img = trim_square (generate m)" for a img
  proof -
    from that obtain m gi gi' where
      i: "ImageModel_init (series_model_args sa atoms dv a) gi = Inr (m, gi')"
      and im: "img = trim_square (generate m)" by blast
    from series_image_facts(3) [OF ne i] obtain xr yr where
      ax: "axis_ranges ?M0 = Inr (xr, yr)"
      and len: "map length (generate m) = replicate (length yr) (length xr)" by blast
    from ax have s: "side = min (length yr) (length xr)" by (simp add: side_def)
    from trim_square_lengths [OF len] series_image_facts(1,2) [OF ne i] i im
    show ?thesis unfolding s by blast
  qed
  from series_loop_images [OF loop] have
    "list_all2 (\<lambda>a img. \<exists>m gi gi'.
            ImageModel_init (series_model_args sa atoms dv a) gi = Inr (m, gi') \<and>
            scan_rotation m = a \<and> drift_vector m = dv \<and>
            img = trim_square (generate m) \<and>
            min (fst (shape (generate m))) (snd (shape (generate m))) = side \<and>
            map length img = replicate side side) angles images"
    by (rule list_all2_mono) (rule step)
  then show ?thesis by blast
qed

lemma linspace_quarter_turns: "linspace 0 360 4 = [0, 90, 180, 270]"
proof -
  have "[0..<4] = [0, 1, 2, 3]" by (simp add: upt_rec numeral_nat)
  then show ?thesis by (simp add: linspace_def)
qed

lemma get_rotation_series_unfold:
  assumes "sa_atoms sa = Some atoms"
    and "(case sa_drift_angle sa of None \<Rightarrow> (g 0 * (2 * pi), \<lambda>i. g (1 + i)) | Some a \<Rightarrow> (a, g)) =
         (ra, g0)"
  shows "get_rotation_series sa g =
     (case series_loop sa atoms (cos ra, sin ra)
             (linspace (sa_minScanAngle sa) (sa_maxScanAngle sa) (sa_nImages sa)) g0 of
        Inl e \<Rightarrow> Inl e
      | Inr (images, g1) \<Rightarrow>
          (if images = [] \<or> (\<exists>img \<in> set images. shape img \<noteq> shape (hd images))
           then Inl ValueError
           else Inr ((images, linspace (sa_minScanAngle sa) (sa_maxScanAngle sa) (sa_nImages sa),
                      ra), g1)))"
proof (cases "sa_drift_angle sa")
  case None
  with assms(2) have r: "ra = g 0 * (2 * pi)" and g0: "g0 = (\<lambda>i. g (1 + i))" by simp_all
  have rs: "random_sample 1 g = ([g 0], \<lambda>i. g (1 + i))" by (simp add: random_sample_def)
  show ?thesis
    unfolding get_rotation_series_def assms(1) None option.case rs Let_def prod.case list.sel
      r g0 ..
next
  case (Some a)
  with assms(2) have r: "ra = a" and g0: "g0 = g" by simp_all
  show ?thesis
    unfolding get_rotation_series_def assms(1) Some option.case Let_def prod.case r g0 ..
qed

lemma get_rotation_series_Inr:
  assumes "get_rotation_series sa g = Inr ((images, scanangles, random_angle), g')"
  shows "\<exists>atoms g0. sa_atoms sa = Some atoms \<and> atoms \<noteq> [] \<and>
      (random_angle, g0) =
        (case sa_drift_angle sa of None \<Rightarrow> (g 0 * (2 * pi), \<lambda>i. g (1 + i)) | Some a \<Rightarrow> (a, g)) \<and>
      scanangles = linspace (sa_minScanAngle sa) (sa_maxScanAngle sa) (sa_nImages sa) \<and>
      series_loop sa atoms (cos random_angle, sin random_angle) scanangles g0 = Inr (images, g') \<and>
      images \<noteq> []"
proof -
  from assms obtain atoms where at: "sa_atoms sa = Some atoms"
    unfolding get_rotation_series_def by (auto split: option.splits)
  define rg where "rg = (case sa_drift_angle sa of
      None \<Rightarrow> (g 0 * (2 * pi), \<lambda>i. g (1 + i)) | Some a \<Rightarrow> (a, g))"
  obtain ra g0 where rg: "rg = (ra, g0)" by (cases rg) auto
  from assms have loop: "series_loop sa atoms (cos ra, sin ra)
        (linspace (sa_minScanAngle sa) (sa_maxScanAngle sa) (sa_nImages sa)) g0 = Inr (images, g')"
    and res: "scanangles = linspace (sa_minScanAngle sa) (sa_maxScanAngle sa) (sa_nImages sa)"
      "random_angle = ra" "images \<noteq> []"
    unfolding get_rotation_series_unfold [OF at rg [unfolded rg_def]]
    by (auto split: sum.splits if_splits)
  have ne: "atoms \<noteq> []"
  proof
    assume e: "atoms = []"
    from res(3) loop obtain a rest where
      "linspace (sa_minScanAngle sa) (sa_maxScanAngle sa) (sa_nImages sa) = a # rest"
      by (cases "linspace (sa_minScanAngle sa) (sa_maxScanAngle sa) (sa_nImages sa)") auto
    with loop obtain m g1 where
      "ImageModel_init (series_model_args sa atoms (cos ra, sin ra) a) g0 = Inr (m, g1)"
      by (auto split: sum.splits)
    moreover have "isl (ImageModel_init (series_model_args sa atoms (cos ra, sin ra) a) g0)"
      by (rule explicit_positions_never_accepted) (simp add: series_model_args_def e)
    ultimately show False by simp
  qed
  from rg have rg': "(random_angle, g0) =
      (case sa_drift_angle sa of None \<Rightarrow> (g 0 * (2 * pi), \<lambda>i. g (1 + i)) | Some a \<Rightarrow> (a, g))"
    unfolding rg_def res(2) by simp
  from loop have loop': "series_loop sa atoms (cos random_angle, sin random_angle) scanangles g0 =
      Inr (images, g')"
    unfolding res(1,2) .
  from at ne rg' res(1) loop' res(3) show ?thesis by blast
qed

lemma get_rotation_series_returns:
  assumes at: "sa_atoms sa = Some atoms" and ne: "atoms \<noteq> []"
    and vac: "0 < sa_vacuum sa" and px: "0 < sa_pixel_size sa" and n: "0 < sa_nImages sa"
  shows "\<not> isl (get_rotation_series sa g)"
proof -
  define rg where "rg = (case sa_drift_angle sa of
      None \<Rightarrow> (g 0 * (2 * pi), \<lambda>i. g (1 + i)) | Some a \<Rightarrow> (a, g))"
  obtain ra g0 where rg: "rg = (ra, g0)" by (cases rg) auto
  let ?dv = "(cos ra, sin ra)"
  let ?angles = "linspace (sa_minScanAngle sa) (sa_maxScanAngle sa) (sa_nImages sa)"
  let ?M0 = "init_fields (series_model_args sa atoms ?dv 0)
               (map (\<lambda>((x, y, z), n). (x, y)) atoms) (map snd atoms)"
  from ne vac px have "\<exists>xr yr. axis_ranges ?M0 = Inr (xr, yr) \<and> xr \<noteq> [] \<and> yr \<noteq> []"
    by (intro axis_ranges_nonempty) (simp_all add: series_model_fields)
  then obtain xr yr where ax: "axis_ranges ?M0 = Inr (xr, yr)" "xr \<noteq> []" "yr \<noteq> []"
    by blast
  from series_loop_returns [OF ne ax, of ?angles g0]
  obtain images g1 where loop: "series_loop sa atoms ?dv ?angles g0 = Inr (images, g1)"
    by (cases "series_loop sa atoms ?dv ?angles g0") auto
  from series_images_square [OF ne loop] obtain side where
    sq: "list_all2 (\<lambda>a img. \<exists>m gi gi'.
            ImageModel_init (series_model_args sa atoms ?dv a) gi = Inr (m, gi') \<and>
            scan_rotation m = a \<and> drift_vector m = ?dv \<and>
            img = trim_square (generate m) \<and>
            min (fst (shape (generate m))) (snd (shape (generate m))) = side \<and>
            map length img = replicate side side) ?angles images"
    by blast
  from sq have len: "length images = length ?angles" by (simp add: list_all2_lengthD)
  have "length ?angles = sa_nImages sa" by (simp add: linspace_def)
  with len n have nonempty: "images \<noteq> []" by auto
  have sh: "shape img = (side, if side = 0 then 0 else side)" if "img \<in> set images" for img
  proof -
    from that obtain i where i: "i < length images" "images ! i = img"
      by (auto simp: in_set_conv_nth)
    from list_all2_nthD2 [OF sq i(1)] have "map length (images ! i) = replicate side side"
      by blast
    then show ?thesis unfolding i(2) by (rule shape_of_lengths)
  qed
  have same: "\<not> (images = [] \<or> (\<exists>img \<in> set images. shape img \<noteq> shape (hd images)))"
  proof -
    from nonempty have "hd images \<in> set images" by simp
    from sh [OF this] sh nonempty show ?thesis by auto
  qed
  show ?thesis
    unfolding get_rotation_series_unfold [OF at rg [unfolded rg_def]] loop sum.case prod.case
      if_not_P [OF same] by simp
qed

end
